theory Spec2Isabelle
  imports Complex_Main
begin

section \<open>Deferred results, synchronous throws and the outside world\<close>

text \<open>
  Every operation of the two adapters calls into a collaborator object.  A call either
  throws synchronously or returns; what an asynchronous operation returns is a promise,
  recorded here by the way it settles: fulfilled with a value, rejected with an error, or
  never settled.  The effects of a collaborator (the screen, the file system, the
  keyboard, the engine's workers) are changes of an explicit world state \<open>'w\<close> that is
  passed through every call.
\<close>

text \<open>
  Modelled from the spec: the kinds of failure.  The sources of the adapters name no
  error class; the four kinds are those of the specification (section 7), and
  \<open>JsError\<close> is any other value that a collaborator throws or rejects with.
\<close>

datatype error =
    NoMatchFound
  | EngineFailure string
  | OcrFailure string
  | SinkWriteFailure string
  | JsError string

datatype 'a promise = Resolved 'a | Rejected error | Pending

datatype 'a call = Returned 'a | Thrown error

type_synonym ('a, 'w) async = "'w \<Rightarrow> 'a promise call \<times> 'w"

type_synonym ('a, 'w) sync = "'w \<Rightarrow> 'a call \<times> 'w"

text \<open>
  A JavaScript \<open>number\<close>.  The adapters pass numbers on and the Finder compares them;
  no arithmetic is done on a confidence, so a number is taken as the real number it
  denotes (\<open>NaN\<close> and the infinities left out).
\<close>

type_synonym number = real

section \<open>Data model\<close>

text \<open>
  Modelled from the spec: the classes \<open>Image\<close>, \<open>Region\<close>, \<open>ImageMatchRequest\<close>,
  \<open>MatchResult\<close>, the interface \<open>OCRResult\<close> and the enumeration \<open>Language\<close> are imported
  by the adapters but their files are not among the sources.  The records follow the
  data model of the specification (section 3): an image is a pixel buffer with its
  dimensions and an optional pixel format, a region a rectangle, a match request a needle
  image, a haystack source and a minimum confidence, a match result a location with a
  confidence, an OCR result a text with a confidence and a bounding box, and a language
  an enumerated tag whose default is English.
\<close>

record image =
  image_data :: "nat list"
  image_width :: nat
  image_height :: nat
  image_format :: "string option"

record region =
  region_x :: number
  region_y :: number
  region_width :: number
  region_height :: number

record match_request =
  needle :: image
  haystackSource :: region
  minConfidence :: number

record match_result =
  location :: region
  confidence :: number

record ocr_result =
  ocr_text :: string
  ocr_confidence :: number
  ocr_boundingBox :: region

datatype language = ENG | OtherLanguage string

section \<open>Collaborator interfaces of the vision adapter\<close>

text \<open>
  The interfaces \<open>FinderInterface\<close>, \<open>ScreenActionProvider\<close>, \<open>TextReader\<close> and \<open>DataSink\<close>
  are used by \<open>vision.adapter.class.ts\<close> through the methods called there; each
  interface is a record of those methods.  The field names carry the name of the
  interface's role in front of the method name, because the adapter's own methods have
  the same names as the methods they call.
\<close>

record 'w FinderInterface =
  finder_findMatch :: "match_request \<Rightarrow> (match_result, 'w) async"

record 'w ScreenActionProvider =
  screen_grabScreen :: "(image, 'w) async"
  screen_grabScreenRegion :: "region \<Rightarrow> (image, 'w) async"
  screen_screenWidth :: "(number, 'w) async"
  screen_screenHeight :: "(number, 'w) async"
  screen_screenSize :: "(region, 'w) async"

record 'w TextReader =
  reader_readPage :: "image \<Rightarrow> language \<Rightarrow> (string, 'w) async"
  reader_readWords :: "image \<Rightarrow> language \<Rightarrow> (ocr_result list, 'w) async"

record 'w DataSink =
  sink_store :: "image \<Rightarrow> string \<Rightarrow> (unit, 'w) async"

section \<open>The vision adapter (\<open>src/lib/adapter/vision.adapter.class.ts\<close>)\<close>

text \<open>
  \<open>VisionAdapterConfig\<close>: every field is optional; \<open>None\<close> is the field left out
  (\<open>undefined\<close>).
\<close>

record 'w VisionAdapterConfig =
  config_finder :: "'w FinderInterface option"
  config_screen :: "'w ScreenActionProvider option"
  config_screenReader :: "'w TextReader option"
  config_dataSink :: "'w DataSink option"

text \<open>The four private fields of the class.\<close>

record 'w VisionAdapter =
  dataSink :: "'w DataSink"
  finder :: "'w FinderInterface"
  screen :: "'w ScreenActionProvider"
  screenReader :: "'w TextReader"

text \<open>
  The production collaborators the constructor creates with \<open>new ImageWriter()\<close>,
  \<open>new TemplateMatchingFinder()\<close>, \<open>new ScreenAction()\<close> and \<open>new TesseractReader()\<close>.
  Their classes are not among the sources; the constructor takes them as a parameter.
\<close>

record 'w VisionProduction =
  new_ImageWriter :: "'w DataSink"
  new_TemplateMatchingFinder :: "'w FinderInterface"
  new_ScreenAction :: "'w ScreenActionProvider"
  new_TesseractReader :: "'w TextReader"

text \<open>
  The constructor.  \<open>(config && config.x) || new X()\<close>: a missing configuration and a
  missing field are both falsy, an object is always truthy.
\<close>

definition new_VisionAdapter ::
  "'w VisionProduction \<Rightarrow> 'w VisionAdapterConfig option \<Rightarrow> 'w VisionAdapter" where
  "new_VisionAdapter env config =
     \<lparr> dataSink =
         (case config of None \<Rightarrow> new_ImageWriter env
          | Some c \<Rightarrow> (case config_dataSink c of None \<Rightarrow> new_ImageWriter env | Some x \<Rightarrow> x)),
       finder =
         (case config of None \<Rightarrow> new_TemplateMatchingFinder env
          | Some c \<Rightarrow>
              (case config_finder c of None \<Rightarrow> new_TemplateMatchingFinder env | Some x \<Rightarrow> x)),
       screen =
         (case config of None \<Rightarrow> new_ScreenAction env
          | Some c \<Rightarrow> (case config_screen c of None \<Rightarrow> new_ScreenAction env | Some x \<Rightarrow> x)),
       screenReader =
         (case config of None \<Rightarrow> new_TesseractReader env
          | Some c \<Rightarrow>
              (case config_screenReader c of None \<Rightarrow> new_TesseractReader env | Some x \<Rightarrow> x)) \<rparr>"

definition grabScreen :: "'w VisionAdapter \<Rightarrow> (image, 'w) async" where
  "grabScreen this = screen_grabScreen (screen this)"

definition grabScreenRegion :: "'w VisionAdapter \<Rightarrow> region \<Rightarrow> (image, 'w) async" where
  "grabScreenRegion this r = screen_grabScreenRegion (screen this) r"

text \<open>
  \<open>findOnScreenRegion\<close>: the executor of the new promise awaits the finder's call inside
  \<open>try\<close>.  A synchronous throw and a rejection both reach \<open>catch\<close> and \<open>reject(e)\<close>, a
  fulfilment reaches \<open>resolve(matchResult)\<close>, and a promise that never settles leaves the
  executor suspended at \<open>await\<close>.
\<close>

definition findOnScreenRegion ::
  "'w VisionAdapter \<Rightarrow> match_request \<Rightarrow> (match_result, 'w) async" where
  "findOnScreenRegion this matchRequest w =
     (case finder_findMatch (finder this) matchRequest w of
        (Thrown e, w') \<Rightarrow> (Returned (Rejected e), w')
      | (Returned (Rejected e), w') \<Rightarrow> (Returned (Rejected e), w')
      | (Returned (Resolved matchResult), w') \<Rightarrow> (Returned (Resolved matchResult), w')
      | (Returned Pending, w') \<Rightarrow> (Returned Pending, w'))"

definition screenWidth :: "'w VisionAdapter \<Rightarrow> (number, 'w) async" where
  "screenWidth this = screen_screenWidth (screen this)"

definition screenHeight :: "'w VisionAdapter \<Rightarrow> (number, 'w) async" where
  "screenHeight this = screen_screenHeight (screen this)"

definition screenSize :: "'w VisionAdapter \<Rightarrow> (region, 'w) async" where
  "screenSize this = screen_screenSize (screen this)"

text \<open>\<open>saveImage\<close>: the cast \<open>this.dataSink as ImageWriter\<close> is a type assertion only.\<close>

definition saveImage :: "'w VisionAdapter \<Rightarrow> image \<Rightarrow> string \<Rightarrow> (unit, 'w) async" where
  "saveImage this img path = sink_store (dataSink this) img path"

text \<open>
  \<open>readText\<close> and \<open>readWords\<close>: the parameter \<open>language: Language = Language.ENG\<close> takes its
  default when the argument is left out; \<open>None\<close> is the argument left out.
\<close>

definition readText ::
  "'w VisionAdapter \<Rightarrow> image \<Rightarrow> language option \<Rightarrow> (string, 'w) async" where
  "readText this img lang =
     reader_readPage (screenReader this) img (case lang of None \<Rightarrow> ENG | Some l \<Rightarrow> l)"

definition readWords ::
  "'w VisionAdapter \<Rightarrow> image \<Rightarrow> language option \<Rightarrow> (ocr_result list, 'w) async" where
  "readWords this img lang =
     reader_readWords (screenReader this) img (case lang of None \<Rightarrow> ENG | Some l \<Rightarrow> l)"

text \<open>
  One call of a public method on an adapter object: the method's result, the object after
  the call and the world after the call.  No method of the class assigns to a field of
  \<open>this\<close>, so every method hands the object back as it received it.
\<close>

datatype vision_op =
    GrabScreen
  | GrabScreenRegion region
  | FindOnScreenRegion match_request
  | ScreenWidth
  | ScreenHeight
  | ScreenSize
  | SaveImage image string
  | ReadText image "language option"
  | ReadWords image "language option"

datatype vision_value =
    ImageValue image
  | MatchValue match_result
  | NumberValue number
  | RegionValue region
  | VoidValue
  | TextValue string
  | WordsValue "ocr_result list"

definition deliver ::
  "('a \<Rightarrow> 'v) \<Rightarrow> 't \<Rightarrow> 'a promise call \<times> 'w \<Rightarrow> 'v promise call \<times> 't \<times> 'w" where
  "deliver wrap this rw = (map_call (map_promise wrap) (fst rw), this, snd rw)"

fun vision_call ::
  "vision_op \<Rightarrow> 'w VisionAdapter \<Rightarrow> 'w \<Rightarrow> vision_value promise call \<times> 'w VisionAdapter \<times> 'w"
  where
  "vision_call GrabScreen this w = deliver ImageValue this (grabScreen this w)"
| "vision_call (GrabScreenRegion r) this w = deliver ImageValue this (grabScreenRegion this r w)"
| "vision_call (FindOnScreenRegion m) this w = deliver MatchValue this (findOnScreenRegion this m w)"
| "vision_call ScreenWidth this w = deliver NumberValue this (screenWidth this w)"
| "vision_call ScreenHeight this w = deliver NumberValue this (screenHeight this w)"
| "vision_call ScreenSize this w = deliver RegionValue this (screenSize this w)"
| "vision_call (SaveImage img path) this w =
     deliver (\<lambda>_. VoidValue) this (saveImage this img path w)"
| "vision_call (ReadText img lang) this w = deliver TextValue this (readText this img lang w)"
| "vision_call (ReadWords img lang) this w = deliver WordsValue this (readWords this img lang w)"

text \<open>A sequence of calls on the same object, with the results in the order of the calls.\<close>

fun vision_calls ::
  "vision_op list \<Rightarrow> 'w VisionAdapter \<Rightarrow> 'w
     \<Rightarrow> vision_value promise call list \<times> 'w VisionAdapter \<times> 'w" where
  "vision_calls [] this w = ([], this, w)"
| "vision_calls (op # ops) this w =
     (case vision_call op this w of
        (r, this', w') \<Rightarrow>
          (case vision_calls ops this' w' of (rs, this'', w'') \<Rightarrow> (r # rs, this'', w'')))"

section \<open>The native adapter (\<open>src/lib/adapter/native.adapter.class.ts\<close>)\<close>

text \<open>
  The classes \<open>Point\<close>, \<open>Button\<close> and \<open>Key\<close> are not among the sources and the adapter
  only passes their values on: they are the type parameters \<open>'p\<close>, \<open>'b\<close> and \<open>'k\<close>.
  A rest parameter \<open>...keys: Key[]\<close> is the list of the arguments.
\<close>

record 'w ClipboardActionProvider =
  clipboard_copy :: "string \<Rightarrow> (unit, 'w) async"
  clipboard_paste :: "(string, 'w) async"

record ('w, 'k) KeyboardActionProvider =
  keyboard_setKeyboardDelay :: "number \<Rightarrow> (unit, 'w) sync"
  keyboard_type :: "string \<Rightarrow> (unit, 'w) async"
  keyboard_click :: "'k list \<Rightarrow> (unit, 'w) async"
  keyboard_pressKey :: "'k list \<Rightarrow> (unit, 'w) async"
  keyboard_releaseKey :: "'k list \<Rightarrow> (unit, 'w) async"

record ('w, 'p, 'b) MouseActionProvider =
  mouse_setMouseDelay :: "number \<Rightarrow> (unit, 'w) sync"
  mouse_setMousePosition :: "'p \<Rightarrow> (unit, 'w) async"
  mouse_currentMousePosition :: "('p, 'w) async"
  mouse_leftClick :: "(unit, 'w) async"
  mouse_rightClick :: "(unit, 'w) async"
  mouse_middleClick :: "(unit, 'w) async"
  mouse_pressButton :: "'b \<Rightarrow> (unit, 'w) async"
  mouse_releaseButton :: "'b \<Rightarrow> (unit, 'w) async"
  mouse_scrollUp :: "number \<Rightarrow> (unit, 'w) async"
  mouse_scrollDown :: "number \<Rightarrow> (unit, 'w) async"
  mouse_scrollLeft :: "number \<Rightarrow> (unit, 'w) async"
  mouse_scrollRight :: "number \<Rightarrow> (unit, 'w) async"

record ('w, 'p, 'b, 'k) NativeAdapterConfig =
  config_clipboard :: "'w ClipboardActionProvider option"
  config_keyboard :: "('w, 'k) KeyboardActionProvider option"
  config_mouse :: "('w, 'p, 'b) MouseActionProvider option"

record ('w, 'p, 'b, 'k) NativeAdapter =
  clipboard :: "'w ClipboardActionProvider"
  keyboard :: "('w, 'k) KeyboardActionProvider"
  mouse :: "('w, 'p, 'b) MouseActionProvider"

text \<open>
  The production collaborators created with \<open>new ClipboardAction()\<close>,
  \<open>new KeyboardAction()\<close> and \<open>new MouseAction()\<close>; their classes are not among the
  sources and the constructor takes them as a parameter.
\<close>

record ('w, 'p, 'b, 'k) NativeProduction =
  new_ClipboardAction :: "'w ClipboardActionProvider"
  new_KeyboardAction :: "('w, 'k) KeyboardActionProvider"
  new_MouseAction :: "('w, 'p, 'b) MouseActionProvider"

definition new_NativeAdapter ::
  "('w, 'p, 'b, 'k) NativeProduction \<Rightarrow> ('w, 'p, 'b, 'k) NativeAdapterConfig option
     \<Rightarrow> ('w, 'p, 'b, 'k) NativeAdapter" where
  "new_NativeAdapter env config =
     \<lparr> clipboard =
         (case config of None \<Rightarrow> new_ClipboardAction env
          | Some c \<Rightarrow>
              (case config_clipboard c of None \<Rightarrow> new_ClipboardAction env | Some x \<Rightarrow> x)),
       keyboard =
         (case config of None \<Rightarrow> new_KeyboardAction env
          | Some c \<Rightarrow>
              (case config_keyboard c of None \<Rightarrow> new_KeyboardAction env | Some x \<Rightarrow> x)),
       mouse =
         (case config of None \<Rightarrow> new_MouseAction env
          | Some c \<Rightarrow> (case config_mouse c of None \<Rightarrow> new_MouseAction env | Some x \<Rightarrow> x)) \<rparr>"

definition setMouseDelay :: "('w, 'p, 'b, 'k) NativeAdapter \<Rightarrow> number \<Rightarrow> (unit, 'w) sync" where
  "setMouseDelay this delay = mouse_setMouseDelay (mouse this) delay"

definition setKeyboardDelay :: "('w, 'p, 'b, 'k) NativeAdapter \<Rightarrow> number \<Rightarrow> (unit, 'w) sync"
  where
  "setKeyboardDelay this delay = keyboard_setKeyboardDelay (keyboard this) delay"

definition setMousePosition :: "('w, 'p, 'b, 'k) NativeAdapter \<Rightarrow> 'p \<Rightarrow> (unit, 'w) async" where
  "setMousePosition this p = mouse_setMousePosition (mouse this) p"

definition currentMousePosition :: "('w, 'p, 'b, 'k) NativeAdapter \<Rightarrow> ('p, 'w) async" where
  "currentMousePosition this = mouse_currentMousePosition (mouse this)"

definition leftClick :: "('w, 'p, 'b, 'k) NativeAdapter \<Rightarrow> (unit, 'w) async" where
  "leftClick this = mouse_leftClick (mouse this)"

definition rightClick :: "('w, 'p, 'b, 'k) NativeAdapter \<Rightarrow> (unit, 'w) async" where
  "rightClick this = mouse_rightClick (mouse this)"

definition middleClick :: "('w, 'p, 'b, 'k) NativeAdapter \<Rightarrow> (unit, 'w) async" where
  "middleClick this = mouse_middleClick (mouse this)"

definition pressButton :: "('w, 'p, 'b, 'k) NativeAdapter \<Rightarrow> 'b \<Rightarrow> (unit, 'w) async" where
  "pressButton this btn = mouse_pressButton (mouse this) btn"

definition releaseButton :: "('w, 'p, 'b, 'k) NativeAdapter \<Rightarrow> 'b \<Rightarrow> (unit, 'w) async" where
  "releaseButton this btn = mouse_releaseButton (mouse this) btn"

text \<open>The method \<open>type\<close>; the name is \<open>typeInput\<close> here.\<close>

definition typeInput :: "('w, 'p, 'b, 'k) NativeAdapter \<Rightarrow> string \<Rightarrow> (unit, 'w) async" where
  "typeInput this input = keyboard_type (keyboard this) input"

definition click :: "('w, 'p, 'b, 'k) NativeAdapter \<Rightarrow> 'k list \<Rightarrow> (unit, 'w) async" where
  "click this keys = keyboard_click (keyboard this) keys"

definition pressKey :: "('w, 'p, 'b, 'k) NativeAdapter \<Rightarrow> 'k list \<Rightarrow> (unit, 'w) async" where
  "pressKey this keys = keyboard_pressKey (keyboard this) keys"

definition releaseKey :: "('w, 'p, 'b, 'k) NativeAdapter \<Rightarrow> 'k list \<Rightarrow> (unit, 'w) async" where
  "releaseKey this keys = keyboard_releaseKey (keyboard this) keys"

definition scrollUp :: "('w, 'p, 'b, 'k) NativeAdapter \<Rightarrow> number \<Rightarrow> (unit, 'w) async" where
  "scrollUp this amount = mouse_scrollUp (mouse this) amount"

definition scrollDown :: "('w, 'p, 'b, 'k) NativeAdapter \<Rightarrow> number \<Rightarrow> (unit, 'w) async" where
  "scrollDown this amount = mouse_scrollDown (mouse this) amount"

definition scrollLeft :: "('w, 'p, 'b, 'k) NativeAdapter \<Rightarrow> number \<Rightarrow> (unit, 'w) async" where
  "scrollLeft this amount = mouse_scrollLeft (mouse this) amount"

definition scrollRight :: "('w, 'p, 'b, 'k) NativeAdapter \<Rightarrow> number \<Rightarrow> (unit, 'w) async" where
  "scrollRight this amount = mouse_scrollRight (mouse this) amount"

definition copy :: "('w, 'p, 'b, 'k) NativeAdapter \<Rightarrow> string \<Rightarrow> (unit, 'w) async" where
  "copy this txt = clipboard_copy (clipboard this) txt"

definition paste :: "('w, 'p, 'b, 'k) NativeAdapter \<Rightarrow> (string, 'w) async" where
  "paste this = clipboard_paste (clipboard this)"

datatype ('p, 'b, 'k) native_op =
    SetMouseDelay number
  | SetKeyboardDelay number
  | SetMousePosition 'p
  | CurrentMousePosition
  | LeftClick
  | RightClick
  | MiddleClick
  | PressButton 'b
  | ReleaseButton 'b
  | TypeInput string
  | Click "'k list"
  | PressKey "'k list"
  | ReleaseKey "'k list"
  | ScrollUp number
  | ScrollDown number
  | ScrollLeft number
  | ScrollRight number
  | Copy string
  | Paste

datatype 'p native_value = NoValue | PointValue 'p | StringValue string

text \<open>
  The two delay setters return \<open>void\<close> synchronously, every other method a promise: the
  result of a call is one or the other.
\<close>

datatype 'p native_result =
    Sync "unit call"
  | Async "'p native_value promise call"

definition deliver_sync :: "'t \<Rightarrow> unit call \<times> 'w \<Rightarrow> 'p native_result \<times> 't \<times> 'w" where
  "deliver_sync this rw = (Sync (fst rw), this, snd rw)"

definition deliver_async ::
  "('a \<Rightarrow> 'p native_value) \<Rightarrow> 't \<Rightarrow> 'a promise call \<times> 'w \<Rightarrow> 'p native_result \<times> 't \<times> 'w"
  where
  "deliver_async wrap this rw = (Async (map_call (map_promise wrap) (fst rw)), this, snd rw)"

fun native_call ::
  "('p, 'b, 'k) native_op \<Rightarrow> ('w, 'p, 'b, 'k) NativeAdapter \<Rightarrow> 'w
     \<Rightarrow> 'p native_result \<times> ('w, 'p, 'b, 'k) NativeAdapter \<times> 'w" where
  "native_call (SetMouseDelay d) this w = deliver_sync this (setMouseDelay this d w)"
| "native_call (SetKeyboardDelay d) this w = deliver_sync this (setKeyboardDelay this d w)"
| "native_call (SetMousePosition p) this w =
     deliver_async (\<lambda>_. NoValue) this (setMousePosition this p w)"
| "native_call CurrentMousePosition this w =
     deliver_async PointValue this (currentMousePosition this w)"
| "native_call LeftClick this w = deliver_async (\<lambda>_. NoValue) this (leftClick this w)"
| "native_call RightClick this w = deliver_async (\<lambda>_. NoValue) this (rightClick this w)"
| "native_call MiddleClick this w = deliver_async (\<lambda>_. NoValue) this (middleClick this w)"
| "native_call (PressButton b) this w = deliver_async (\<lambda>_. NoValue) this (pressButton this b w)"
| "native_call (ReleaseButton b) this w =
     deliver_async (\<lambda>_. NoValue) this (releaseButton this b w)"
| "native_call (TypeInput s) this w = deliver_async (\<lambda>_. NoValue) this (typeInput this s w)"
| "native_call (Click ks) this w = deliver_async (\<lambda>_. NoValue) this (click this ks w)"
| "native_call (PressKey ks) this w = deliver_async (\<lambda>_. NoValue) this (pressKey this ks w)"
| "native_call (ReleaseKey ks) this w = deliver_async (\<lambda>_. NoValue) this (releaseKey this ks w)"
| "native_call (ScrollUp n) this w = deliver_async (\<lambda>_. NoValue) this (scrollUp this n w)"
| "native_call (ScrollDown n) this w = deliver_async (\<lambda>_. NoValue) this (scrollDown this n w)"
| "native_call (ScrollLeft n) this w = deliver_async (\<lambda>_. NoValue) this (scrollLeft this n w)"
| "native_call (ScrollRight n) this w = deliver_async (\<lambda>_. NoValue) this (scrollRight this n w)"
| "native_call (Copy s) this w = deliver_async (\<lambda>_. NoValue) this (copy this s w)"
| "native_call Paste this w = deliver_async StringValue this (paste this w)"

fun native_calls ::
  "('p, 'b, 'k) native_op list \<Rightarrow> ('w, 'p, 'b, 'k) NativeAdapter \<Rightarrow> 'w
     \<Rightarrow> 'p native_result list \<times> ('w, 'p, 'b, 'k) NativeAdapter \<times> 'w" where
  "native_calls [] this w = ([], this, w)"
| "native_calls (op # ops) this w =
     (case native_call op this w of
        (r, this', w') \<Rightarrow>
          (case native_calls ops this' w' of (rs, this'', w'') \<Rightarrow> (r # rs, this'', w'')))"

section \<open>The Finder\<close>

text \<open>
  Modelled from the spec: the Matching Engine, an external collaborator of the Finder
  (specification, sections 2 and 4.1).  Given a haystack image, a needle image and a
  minimum confidence it answers with zero or more candidates, each a location with a
  score; it may also raise a fault, or never answer.  The specification does not say how
  the haystack image is obtained from the haystack source of a request, nor how an image
  is converted to grayscale: both are operations of the engine here, taken as they are.
\<close>

datatype engine_response =
    Candidates "match_result list"
  | Fault string
  | NoResponse

record 'w MatchingEngine =
  engine_haystack :: "region \<Rightarrow> 'w \<Rightarrow> image"
  engine_toGrayscale :: "image \<Rightarrow> image"
  engine_match :: "image \<Rightarrow> image \<Rightarrow> number \<Rightarrow> 'w \<Rightarrow> engine_response \<times> 'w"

text \<open>
  Modelled from the spec: the class \<open>TemplateMatchingFinder\<close>, the production finder,
  whose file is not among the sources.  Specification, section 4.1: the search is in
  full colour if the minimum confidence is at least 0.99, otherwise needle and haystack
  are converted to grayscale; of the candidates the one with the strictly highest
  confidence is selected, the first one met among equals; its confidence must be at least
  the minimum confidence, else the call fails with \<open>NoMatchFound\<close>; a fault of the engine
  is an \<open>EngineFailure\<close>.
\<close>

definition better :: "match_result \<Rightarrow> match_result \<Rightarrow> match_result" where
  "better best c = (if confidence best < confidence c then c else best)"

definition bestCandidate :: "match_result list \<Rightarrow> match_result option" where
  "bestCandidate cs = (case cs of [] \<Rightarrow> None | c # rest \<Rightarrow> Some (foldl better c rest))"

definition selectMatch :: "number \<Rightarrow> match_result list \<Rightarrow> match_result promise" where
  "selectMatch minimum cs =
     (case bestCandidate cs of
        None \<Rightarrow> Rejected NoMatchFound
      | Some best \<Rightarrow> if minimum \<le> confidence best then Resolved best else Rejected NoMatchFound)"

definition matchOutcome ::
  "number \<Rightarrow> engine_response \<times> 'w \<Rightarrow> match_result promise call \<times> 'w" where
  "matchOutcome minimum rw =
     (case fst rw of
        Candidates cs \<Rightarrow> (Returned (selectMatch minimum cs), snd rw)
      | Fault msg \<Rightarrow> (Returned (Rejected (EngineFailure msg)), snd rw)
      | NoResponse \<Rightarrow> (Returned Pending, snd rw))"

definition searchImages :: "'w MatchingEngine \<Rightarrow> match_request \<Rightarrow> 'w \<Rightarrow> image \<times> image" where
  "searchImages engine matchRequest w =
     (let haystack = engine_haystack engine (haystackSource matchRequest) w
      in if 0.99 \<le> minConfidence matchRequest
         then (haystack, needle matchRequest)
         else (engine_toGrayscale engine haystack,
               engine_toGrayscale engine (needle matchRequest)))"

definition TemplateMatchingFinder_findMatch ::
  "'w MatchingEngine \<Rightarrow> match_request \<Rightarrow> (match_result, 'w) async" where
  "TemplateMatchingFinder_findMatch engine matchRequest w =
     (case searchImages engine matchRequest w of
        (haystack, pattern) \<Rightarrow>
          matchOutcome (minConfidence matchRequest)
            (engine_match engine haystack pattern (minConfidence matchRequest) w))"

definition TemplateMatchingFinder :: "'w MatchingEngine \<Rightarrow> 'w FinderInterface" where
  "TemplateMatchingFinder engine =
     \<lparr> finder_findMatch = TemplateMatchingFinder_findMatch engine \<rparr>"

section \<open>The Text Reader\<close>

text \<open>
  The engine's data, from \<open>src/types/tesseract.js/index.d.ts\<close>: of each interface the
  fields the Text Reader reads.  A block has one \<open>paragraphs\<close> value of type
  \<open>Paragraph\<close>, as declared there.
\<close>

record Bbox =
  x0 :: number
  y0 :: number
  x1 :: number
  y1 :: number

record Word =
  word_text :: string
  word_confidence :: number
  word_bbox :: Bbox

record Line =
  line_words :: "Word list"

record Paragraph =
  paragraph_lines :: "Line list"

record Block =
  block_paragraphs :: Paragraph

record Page =
  page_blocks :: "Block list"
  page_text :: string
  page_confidence :: number

record Progress =
  progress_status :: string
  progress_progress :: number

text \<open>
  \<open>TesseractJob\<close> offers the registrations \<open>then\<close>, \<open>progress\<close> and \<open>catch\<close>; the engine
  calls the registered callbacks as the job proceeds.  A job is the sequence of the
  notifications the engine delivers, and \<open>TesseractWorker.recognize\<close> returns it.
\<close>

datatype job_event =
    ProgressEvent Progress
  | ResultEvent Page
  | ErrorEvent string

record 'w TesseractWorker =
  worker_recognize :: "image \<Rightarrow> language \<Rightarrow> 'w \<Rightarrow> job_event list \<times> 'w"

text \<open>
  Modelled from the spec: the class \<open>TesseractReader\<close>, the production text reader,
  whose file is not among the sources.  Specification, section 4.2: a job is submitted,
  runs while progress notifications arrive, and ends in exactly one terminal state,
  succeeded with the normalised data or failed with \<open>OcrFailure\<close> carrying the engine's
  message; a terminal state is not revisited and progress never stands in for one.
  \<open>readWords\<close> walks block, paragraph, line and word in document order and emits one OCR
  result per word with the word's own confidence and bounding box.
\<close>

datatype 'a job_state = Submitted | Running | Succeeded 'a | Failed error

fun job_step :: "(Page \<Rightarrow> 'a) \<Rightarrow> 'a job_state \<Rightarrow> job_event \<Rightarrow> 'a job_state" where
  "job_step normalise (Succeeded r) ev = Succeeded r"
| "job_step normalise (Failed e) ev = Failed e"
| "job_step normalise st (ProgressEvent p) = Running"
| "job_step normalise st (ResultEvent page) = Succeeded (normalise page)"
| "job_step normalise st (ErrorEvent msg) = Failed (OcrFailure msg)"

definition run_job :: "(Page \<Rightarrow> 'a) \<Rightarrow> job_event list \<Rightarrow> 'a job_state" where
  "run_job normalise events = foldl (job_step normalise) Submitted events"

definition job_outcome :: "'a job_state \<Rightarrow> 'a promise" where
  "job_outcome st =
     (case st of
        Succeeded r \<Rightarrow> Resolved r
      | Failed e \<Rightarrow> Rejected e
      | Submitted \<Rightarrow> Pending
      | Running \<Rightarrow> Pending)"

definition bbox_region :: "Bbox \<Rightarrow> region" where
  "bbox_region b =
     \<lparr> region_x = x0 b, region_y = y0 b,
       region_width = x1 b - x0 b, region_height = y1 b - y0 b \<rparr>"

definition word_result :: "Word \<Rightarrow> ocr_result" where
  "word_result wd =
     \<lparr> ocr_text = word_text wd, ocr_confidence = word_confidence wd,
       ocr_boundingBox = bbox_region (word_bbox wd) \<rparr>"

definition page_words :: "Page \<Rightarrow> ocr_result list" where
  "page_words page =
     concat (map (\<lambda>block.
       concat (map (\<lambda>line. map word_result (line_words line))
                 (paragraph_lines (block_paragraphs block))))
       (page_blocks page))"

definition TesseractReader_readPage ::
  "'w TesseractWorker \<Rightarrow> image \<Rightarrow> language \<Rightarrow> (string, 'w) async" where
  "TesseractReader_readPage worker img lang w =
     (case worker_recognize worker img lang w of
        (events, w') \<Rightarrow> (Returned (job_outcome (run_job page_text events)), w'))"

definition TesseractReader_readWords ::
  "'w TesseractWorker \<Rightarrow> image \<Rightarrow> language \<Rightarrow> (ocr_result list, 'w) async" where
  "TesseractReader_readWords worker img lang w =
     (case worker_recognize worker img lang w of
        (events, w') \<Rightarrow> (Returned (job_outcome (run_job page_words events)), w'))"

definition TesseractReader :: "'w TesseractWorker \<Rightarrow> 'w TextReader" where
  "TesseractReader worker =
     \<lparr> reader_readPage = TesseractReader_readPage worker,
       reader_readWords = TesseractReader_readWords worker \<rparr>"

text \<open>A notification that is not terminal.\<close>

fun is_progress :: "job_event \<Rightarrow> bool" where
  "is_progress (ProgressEvent p) = True"
| "is_progress ev = False"

section \<open>Test doubles\<close>

text \<open>
  Collaborators with a fixed behaviour, to be substituted through the configuration
  records, and the values they work on.
\<close>

definition blank :: image where
  "blank = \<lparr> image_data = [], image_width = 0, image_height = 0, image_format = None \<rparr>"

definition screenshot :: image where
  "screenshot =
     \<lparr> image_data = [1, 2, 3, 4], image_width = 2, image_height = 2,
       image_format = Some ''rgb'' \<rparr>"

definition origin :: region where
  "origin = \<lparr> region_x = 0, region_y = 0, region_width = 0, region_height = 0 \<rparr>"

definition candidate :: "number \<Rightarrow> match_result" where
  "candidate c = \<lparr> location = origin, confidence = c \<rparr>"

definition request :: "number \<Rightarrow> match_request" where
  "request c = \<lparr> needle = blank, haystackSource = origin, minConfidence = c \<rparr>"

definition stub_finder :: "match_result promise call \<Rightarrow> 'w FinderInterface" where
  "stub_finder r = \<lparr> finder_findMatch = (\<lambda>m w. (r, w)) \<rparr>"

definition stub_screen :: "image \<Rightarrow> 'w ScreenActionProvider" where
  "stub_screen img =
     \<lparr> screen_grabScreen = (\<lambda>w. (Returned (Resolved img), w)),
       screen_grabScreenRegion = (\<lambda>r w. (Returned (Resolved img), w)),
       screen_screenWidth = (\<lambda>w. (Returned (Resolved (real (image_width img))), w)),
       screen_screenHeight = (\<lambda>w. (Returned (Resolved (real (image_height img))), w)),
       screen_screenSize = (\<lambda>w. (Returned (Resolved origin), w)) \<rparr>"

definition stub_reader :: "string \<Rightarrow> 'w TextReader" where
  "stub_reader txt =
     \<lparr> reader_readPage = (\<lambda>img l w. (Returned (Resolved txt), w)),
       reader_readWords = (\<lambda>img l w. (Returned (Resolved []), w)) \<rparr>"

definition stub_sink :: "unit promise \<Rightarrow> 'w DataSink" where
  "stub_sink r = \<lparr> sink_store = (\<lambda>img path w. (Returned r, w)) \<rparr>"

text \<open>A sink that writes to a disk, a list of paths with their images, and refuses an empty path.\<close>

definition disk_sink :: "(string \<times> image) list DataSink" where
  "disk_sink =
     \<lparr> sink_store = (\<lambda>img path disk.
         if path = [] then (Returned (Rejected (SinkWriteFailure ''ENOENT'')), disk)
         else (Returned (Resolved ()), disk @ [(path, img)])) \<rparr>"

text \<open>A sink whose \<open>store\<close> throws synchronously.\<close>

definition throwing_sink :: "error \<Rightarrow> 'w DataSink" where
  "throwing_sink e = \<lparr> sink_store = (\<lambda>img path w. (Thrown e, w)) \<rparr>"

text \<open>A matching engine that records the images of every invocation and gives a fixed answer.\<close>

definition recording_engine :: "engine_response \<Rightarrow> (image \<times> image) list MatchingEngine" where
  "recording_engine answer =
     \<lparr> engine_haystack = (\<lambda>r log. screenshot),
       engine_toGrayscale = (\<lambda>img. img\<lparr> image_format := Some ''gray'' \<rparr>),
       engine_match = (\<lambda>haystack pattern c log. (answer, log @ [(haystack, pattern)])) \<rparr>"

text \<open>An OCR worker whose job delivers a fixed sequence of notifications.\<close>

definition scripted_worker :: "job_event list \<Rightarrow> 'w TesseractWorker" where
  "scripted_worker events = \<lparr> worker_recognize = (\<lambda>img l w. (events, w)) \<rparr>"

definition stub_vision :: "'w VisionProduction" where
  "stub_vision =
     \<lparr> new_ImageWriter = stub_sink Pending,
       new_TemplateMatchingFinder = stub_finder (Returned Pending),
       new_ScreenAction = stub_screen blank,
       new_TesseractReader = stub_reader [] \<rparr>"

definition stub_clipboard :: "string \<Rightarrow> 'w ClipboardActionProvider" where
  "stub_clipboard txt =
     \<lparr> clipboard_copy = (\<lambda>s w. (Returned (Resolved ()), w)),
       clipboard_paste = (\<lambda>w. (Returned (Resolved txt), w)) \<rparr>"

definition stub_keyboard :: "unit promise \<Rightarrow> ('w, 'k) KeyboardActionProvider" where
  "stub_keyboard r =
     \<lparr> keyboard_setKeyboardDelay = (\<lambda>d w. (Returned (), w)),
       keyboard_type = (\<lambda>s w. (Returned r, w)),
       keyboard_click = (\<lambda>ks w. (Returned r, w)),
       keyboard_pressKey = (\<lambda>ks w. (Returned r, w)),
       keyboard_releaseKey = (\<lambda>ks w. (Returned r, w)) \<rparr>"

definition stub_mouse :: "'p \<Rightarrow> ('w, 'p, 'b) MouseActionProvider" where
  "stub_mouse p =
     \<lparr> mouse_setMouseDelay = (\<lambda>d w. (Returned (), w)),
       mouse_setMousePosition = (\<lambda>q w. (Returned (Resolved ()), w)),
       mouse_currentMousePosition = (\<lambda>w. (Returned (Resolved p), w)),
       mouse_leftClick = (\<lambda>w. (Returned (Resolved ()), w)),
       mouse_rightClick = (\<lambda>w. (Returned (Resolved ()), w)),
       mouse_middleClick = (\<lambda>w. (Returned (Resolved ()), w)),
       mouse_pressButton = (\<lambda>b w. (Returned (Resolved ()), w)),
       mouse_releaseButton = (\<lambda>b w. (Returned (Resolved ()), w)),
       mouse_scrollUp = (\<lambda>n w. (Returned (Resolved ()), w)),
       mouse_scrollDown = (\<lambda>n w. (Returned (Resolved ()), w)),
       mouse_scrollLeft = (\<lambda>n w. (Returned (Resolved ()), w)),
       mouse_scrollRight = (\<lambda>n w. (Returned (Resolved ()), w)) \<rparr>"

definition stub_native :: "('w, nat \<times> nat, 'b, 'k) NativeProduction" where
  "stub_native =
     \<lparr> new_ClipboardAction = stub_clipboard [],
       new_KeyboardAction = stub_keyboard Pending,
       new_MouseAction = stub_mouse (0, 0) \<rparr>"

text \<open>
  The production collaborators of the vision adapter over a given matching engine and a
  given OCR worker, and configuration records with every field set and with no field set.
\<close>

definition production_vision ::
  "'w MatchingEngine \<Rightarrow> 'w TesseractWorker \<Rightarrow> 'w VisionProduction" where
  "production_vision engine worker =
     \<lparr> new_ImageWriter = stub_sink Pending,
       new_TemplateMatchingFinder = TemplateMatchingFinder engine,
       new_ScreenAction = stub_screen blank,
       new_TesseractReader = TesseractReader worker \<rparr>"

definition full_vision_config :: "'w VisionAdapterConfig" where
  "full_vision_config =
     \<lparr> config_finder = Some (stub_finder (Thrown (JsError ''double''))),
       config_screen = Some (stub_screen screenshot),
       config_screenReader = Some (stub_reader ''text''),
       config_dataSink = Some (stub_sink (Resolved ())) \<rparr>"

definition empty_vision_config :: "'w VisionAdapterConfig" where
  "empty_vision_config =
     \<lparr> config_finder = None, config_screen = None, config_screenReader = None,
       config_dataSink = None \<rparr>"

definition full_native_config :: "('w, nat \<times> nat, 'b, 'k) NativeAdapterConfig" where
  "full_native_config =
     \<lparr> config_clipboard = Some (stub_clipboard ''clip''),
       config_keyboard = Some (stub_keyboard (Resolved ())),
       config_mouse = Some (stub_mouse (3, 4)) \<rparr>"

definition empty_native_config :: "('w, 'p, 'b, 'k) NativeAdapterConfig" where
  "empty_native_config =
     \<lparr> config_clipboard = None, config_keyboard = None, config_mouse = None \<rparr>"

section \<open>Lemmas about the model\<close>

subsection \<open>Selection of the best candidate\<close>

text \<open>
  The candidate that \<open>bestCandidate\<close> selects splits the list of candidates: every
  candidate before it has a strictly lower confidence and no candidate after it has a
  higher one.
\<close>

lemma better_foldl_split:
  "\<exists>pre post. c # rest = pre @ foldl better c rest # post
     \<and> (\<forall>x\<in>set pre. confidence x < confidence (foldl better c rest))
     \<and> (\<forall>x\<in>set post. confidence x \<le> confidence (foldl better c rest))"
proof (induction rest rule: rev_induct)
  case Nil
  have "c # [] = [] @ foldl better c [] # []" by simp
  then show ?case by fastforce
next
  case (snoc x rest)
  then obtain pre post where split: "c # rest = pre @ foldl better c rest # post"
    and before: "\<forall>y\<in>set pre. confidence y < confidence (foldl better c rest)"
    and after: "\<forall>y\<in>set post. confidence y \<le> confidence (foldl better c rest)"
    by blast
  let ?b = "foldl better c rest"
  show ?case
  proof (cases "confidence ?b < confidence x")
    case True
    then have new: "foldl better c (rest @ [x]) = x" by (simp add: better_def)
    have "c # rest @ [x] = (pre @ ?b # post) @ x # []" using split by simp
    moreover have "\<forall>y\<in>set (pre @ ?b # post). confidence y < confidence x"
      using before after True by fastforce
    ultimately show ?thesis unfolding new by (metis empty_iff list.set(1))
  next
    case False
    then have keep: "foldl better c (rest @ [x]) = ?b" by (simp add: better_def)
    have "c # rest @ [x] = pre @ ?b # (post @ [x])" using split by simp
    moreover have "\<forall>y\<in>set (post @ [x]). confidence y \<le> confidence ?b"
      using after False by auto
    ultimately show ?thesis unfolding keep using before by blast
  qed
qed

lemma bestCandidate_split:
  assumes "cs \<noteq> []"
  shows "\<exists>pre best post. cs = pre @ best # post \<and> bestCandidate cs = Some best
     \<and> (\<forall>x\<in>set pre. confidence x < confidence best)
     \<and> (\<forall>x\<in>set post. confidence x \<le> confidence best)"
proof -
  from assms obtain c rest where cs: "cs = c # rest" by (cases cs) auto
  from better_foldl_split [of c rest] show ?thesis
    unfolding cs bestCandidate_def by auto
qed

lemma bestCandidate_mem:
  assumes "bestCandidate cs = Some b"
  shows "b \<in> set cs"
proof -
  from assms have "cs \<noteq> []" by (auto simp: bestCandidate_def)
  from bestCandidate_split [OF this] obtain pre best post
    where "cs = pre @ best # post" and "bestCandidate cs = Some best" by blast
  with assms show ?thesis by simp
qed

lemma selectMatch_below:
  assumes "\<forall>c\<in>set cs. confidence c < minimum"
  shows "selectMatch minimum cs = Rejected NoMatchFound"
proof (cases "bestCandidate cs")
  case None
  then show ?thesis by (simp add: selectMatch_def)
next
  case (Some b)
  then have "b \<in> set cs" by (rule bestCandidate_mem)
  with assms have "confidence b < minimum" by blast
  with Some show ?thesis by (simp add: selectMatch_def)
qed

subsection \<open>The adapter in front of the production finder\<close>

lemma findOnScreenRegion_Returned:
  assumes "finder_findMatch (finder this) req w = (Returned p, w')"
  shows "findOnScreenRegion this req w = (Returned p, w')"
  using assms by (cases p) (simp_all add: findOnScreenRegion_def)

lemma matchOutcome_Returned: "\<exists>p. matchOutcome minimum rw = (Returned p, snd rw)"
  by (cases "fst rw") (simp_all add: matchOutcome_def)

lemma findOnScreenRegion_production:
  assumes "finder this = TemplateMatchingFinder engine"
  shows "findOnScreenRegion this req w = TemplateMatchingFinder_findMatch engine req w"
proof -
  obtain h n where images: "searchImages engine req w = (h, n)"
    by (cases "searchImages engine req w")
  obtain p where "matchOutcome (minConfidence req) (engine_match engine h n (minConfidence req) w)
      = (Returned p, snd (engine_match engine h n (minConfidence req) w))"
    using matchOutcome_Returned by blast
  with images have "TemplateMatchingFinder_findMatch engine req w
      = (Returned p, snd (engine_match engine h n (minConfidence req) w))"
    by (simp add: TemplateMatchingFinder_findMatch_def)
  moreover from this assms have "findOnScreenRegion this req w
      = (Returned p, snd (engine_match engine h n (minConfidence req) w))"
    by (intro findOnScreenRegion_Returned) (simp add: TemplateMatchingFinder_def)
  ultimately show ?thesis by simp
qed

lemma findOnScreenRegion_candidates:
  assumes "finder this = TemplateMatchingFinder engine"
    and "searchImages engine req w = (h, n)"
    and "engine_match engine h n (minConfidence req) w = (Candidates cs, w')"
  shows "findOnScreenRegion this req w = (Returned (selectMatch (minConfidence req) cs), w')"
  using assms
  by (simp add: findOnScreenRegion_production TemplateMatchingFinder_findMatch_def
      matchOutcome_def)

subsection \<open>The life cycle of an OCR job\<close>

lemma job_step_terminal:
  "foldl (job_step f) (Failed e) evs = Failed e"
  "foldl (job_step f) (Succeeded r) evs = Succeeded r"
  by (induction evs) simp_all

lemma job_progress_only:
  assumes "\<forall>ev\<in>set ps. is_progress ev" and "st = Submitted \<or> st = Running"
  shows "foldl (job_step f) st ps = Submitted \<or> foldl (job_step f) st ps = Running"
  using assms
proof (induction ps arbitrary: st)
  case Nil
  then show ?case by simp
next
  case (Cons ev ps)
  from Cons.prems obtain p where ev: "ev = ProgressEvent p" by (cases ev) auto
  from Cons.prems(2) have "job_step f st ev = Running" unfolding ev by auto
  with Cons.IH [of Running] Cons.prems(1) show ?case by simp
qed

lemma run_job_error:
  assumes "\<forall>ev\<in>set ps. is_progress ev"
  shows "run_job f (ps @ ErrorEvent msg # rest) = Failed (OcrFailure msg)"
proof -
  from job_progress_only [OF assms, of Submitted f]
  have "job_step f (foldl (job_step f) Submitted ps) (ErrorEvent msg) = Failed (OcrFailure msg)"
    by auto
  then show ?thesis by (simp add: run_job_def job_step_terminal)
qed

subsection \<open>Constructors and calls\<close>

lemma vision_call_this: "fst (snd (vision_call op this w)) = this"
  by (cases op) (simp_all add: deliver_def)

lemma vision_calls_this: "fst (snd (vision_calls ops this w)) = this"
proof (induction ops arbitrary: w)
  case Nil
  show ?case by simp
next
  case (Cons op ops)
  obtain r t w1 where one: "vision_call op this w = (r, t, w1)"
    by (cases "vision_call op this w")
  with vision_call_this [of op this w] have same: "t = this" by simp
  obtain rs t' w2 where more: "vision_calls ops this w1 = (rs, t', w2)"
    by (cases "vision_calls ops this w1")
  with Cons.IH [of w1] have "t' = this" by simp
  with one same more show ?case by simp
qed

lemma native_call_this: "fst (snd (native_call op this w)) = this"
  by (cases op) (simp_all add: deliver_sync_def deliver_async_def)

lemma native_calls_this: "fst (snd (native_calls ops this w)) = this"
proof (induction ops arbitrary: w)
  case Nil
  show ?case by simp
next
  case (Cons op ops)
  obtain r t w1 where one: "native_call op this w = (r, t, w1)"
    by (cases "native_call op this w")
  with native_call_this [of op this w] have same: "t = this" by simp
  obtain rs t' w2 where more: "native_calls ops this w1 = (rs, t', w2)"
    by (cases "native_calls ops this w1")
  with Cons.IH [of w1] have "t' = this" by simp
  with one same more show ?case by simp
qed

lemma new_VisionAdapter_set:
  assumes "config = Some c"
  shows "config_dataSink c = Some d \<Longrightarrow> dataSink (new_VisionAdapter env config) = d"
    and "config_finder c = Some f \<Longrightarrow> finder (new_VisionAdapter env config) = f"
    and "config_screen c = Some s \<Longrightarrow> screen (new_VisionAdapter env config) = s"
    and "config_screenReader c = Some t \<Longrightarrow> screenReader (new_VisionAdapter env config) = t"
  using assms by (simp_all add: new_VisionAdapter_def)

lemma new_VisionAdapter_unset:
  "config = None \<or> (\<exists>c. config = Some c \<and> config_dataSink c = None)
     \<Longrightarrow> dataSink (new_VisionAdapter env config) = new_ImageWriter env"
  "config = None \<or> (\<exists>c. config = Some c \<and> config_finder c = None)
     \<Longrightarrow> finder (new_VisionAdapter env config) = new_TemplateMatchingFinder env"
  "config = None \<or> (\<exists>c. config = Some c \<and> config_screen c = None)
     \<Longrightarrow> screen (new_VisionAdapter env config) = new_ScreenAction env"
  "config = None \<or> (\<exists>c. config = Some c \<and> config_screenReader c = None)
     \<Longrightarrow> screenReader (new_VisionAdapter env config) = new_TesseractReader env"
  by (auto simp: new_VisionAdapter_def)

lemma new_NativeAdapter_set:
  assumes "config = Some c"
  shows "config_clipboard c = Some cb \<Longrightarrow> clipboard (new_NativeAdapter env config) = cb"
    and "config_keyboard c = Some kb \<Longrightarrow> keyboard (new_NativeAdapter env config) = kb"
    and "config_mouse c = Some m \<Longrightarrow> mouse (new_NativeAdapter env config) = m"
  using assms by (simp_all add: new_NativeAdapter_def)

lemma new_NativeAdapter_unset:
  "config = None \<or> (\<exists>c. config = Some c \<and> config_clipboard c = None)
     \<Longrightarrow> clipboard (new_NativeAdapter env config) = new_ClipboardAction env"
  "config = None \<or> (\<exists>c. config = Some c \<and> config_keyboard c = None)
     \<Longrightarrow> keyboard (new_NativeAdapter env config) = new_KeyboardAction env"
  "config = None \<or> (\<exists>c. config = Some c \<and> config_mouse c = None)
     \<Longrightarrow> mouse (new_NativeAdapter env config) = new_MouseAction env"
  by (auto simp: new_NativeAdapter_def)

text \<open>
  What a call of each public method comes to, in terms of the collaborator the adapter
  holds.
\<close>

lemma vision_call_collaborator:
  "vision_call (FindOnScreenRegion req) this w =
     deliver MatchValue this
       (case finder_findMatch (finder this) req w of
             (Thrown e, w') \<Rightarrow> (Returned (Rejected e), w')
           | (Returned p, w') \<Rightarrow> (Returned p, w'))"
  "vision_call GrabScreen this w =
     deliver ImageValue this
       (screen_grabScreen (screen this) w)"
  "vision_call (GrabScreenRegion r) this w =
     deliver ImageValue this
       (screen_grabScreenRegion (screen this) r w)"
  "vision_call ScreenWidth this w =
     deliver NumberValue this
       (screen_screenWidth (screen this) w)"
  "vision_call ScreenHeight this w =
     deliver NumberValue this
       (screen_screenHeight (screen this) w)"
  "vision_call ScreenSize this w =
     deliver RegionValue this
       (screen_screenSize (screen this) w)"
  "vision_call (ReadText img lang) this w =
     deliver TextValue this
       (reader_readPage (screenReader this) img
           (case lang of None \<Rightarrow> ENG | Some l \<Rightarrow> l) w)"
  "vision_call (ReadWords img lang) this w =
     deliver WordsValue this
       (reader_readWords (screenReader this) img
           (case lang of None \<Rightarrow> ENG | Some l \<Rightarrow> l) w)"
  "vision_call (SaveImage snap path) this w =
     deliver (\<lambda>_. VoidValue) this
       (sink_store (dataSink this) snap path w)"
  by (simp_all add: findOnScreenRegion_def grabScreen_def grabScreenRegion_def screenWidth_def
      screenHeight_def screenSize_def saveImage_def readText_def readWords_def
      split: prod.splits call.splits promise.splits)

lemma native_call_collaborator:
  "native_call (Copy str) nthis nw =
     deliver_async (\<lambda>_. NoValue) nthis
       (clipboard_copy (clipboard nthis) str nw)"
  "native_call Paste nthis nw =
     deliver_async StringValue nthis
       (clipboard_paste (clipboard nthis) nw)"
  "native_call (SetKeyboardDelay delay) nthis nw =
     deliver_sync nthis
       (keyboard_setKeyboardDelay (keyboard nthis) delay nw)"
  "native_call (TypeInput str) nthis nw =
     deliver_async (\<lambda>_. NoValue) nthis
       (keyboard_type (keyboard nthis) str nw)"
  "native_call (Click keys) nthis nw =
     deliver_async (\<lambda>_. NoValue) nthis
       (keyboard_click (keyboard nthis) keys nw)"
  "native_call (PressKey keys) nthis nw =
     deliver_async (\<lambda>_. NoValue) nthis
       (keyboard_pressKey (keyboard nthis) keys nw)"
  "native_call (ReleaseKey keys) nthis nw =
     deliver_async (\<lambda>_. NoValue) nthis
       (keyboard_releaseKey (keyboard nthis) keys nw)"
  "native_call (SetMouseDelay delay) nthis nw =
     deliver_sync nthis
       (mouse_setMouseDelay (mouse nthis) delay nw)"
  "native_call (SetMousePosition pt) nthis nw =
     deliver_async (\<lambda>_. NoValue) nthis
       (mouse_setMousePosition (mouse nthis) pt nw)"
  "native_call CurrentMousePosition nthis nw =
     deliver_async PointValue nthis
       (mouse_currentMousePosition (mouse nthis) nw)"
  "native_call LeftClick nthis nw =
     deliver_async (\<lambda>_. NoValue) nthis
       (mouse_leftClick (mouse nthis) nw)"
  "native_call RightClick nthis nw =
     deliver_async (\<lambda>_. NoValue) nthis
       (mouse_rightClick (mouse nthis) nw)"
  "native_call MiddleClick nthis nw =
     deliver_async (\<lambda>_. NoValue) nthis
       (mouse_middleClick (mouse nthis) nw)"
  "native_call (PressButton btn) nthis nw =
     deliver_async (\<lambda>_. NoValue) nthis
       (mouse_pressButton (mouse nthis) btn nw)"
  "native_call (ReleaseButton btn) nthis nw =
     deliver_async (\<lambda>_. NoValue) nthis
       (mouse_releaseButton (mouse nthis) btn nw)"
  "native_call (ScrollUp amount) nthis nw =
     deliver_async (\<lambda>_. NoValue) nthis
       (mouse_scrollUp (mouse nthis) amount nw)"
  "native_call (ScrollDown amount) nthis nw =
     deliver_async (\<lambda>_. NoValue) nthis
       (mouse_scrollDown (mouse nthis) amount nw)"
  "native_call (ScrollLeft amount) nthis nw =
     deliver_async (\<lambda>_. NoValue) nthis
       (mouse_scrollLeft (mouse nthis) amount nw)"
  "native_call (ScrollRight amount) nthis nw =
     deliver_async (\<lambda>_. NoValue) nthis
       (mouse_scrollRight (mouse nthis) amount nw)"
  by (simp_all add: setMouseDelay_def setKeyboardDelay_def setMousePosition_def
      currentMousePosition_def leftClick_def rightClick_def middleClick_def pressButton_def
      releaseButton_def typeInput_def click_def pressKey_def releaseKey_def scrollUp_def
      scrollDown_def scrollLeft_def scrollRight_def copy_def paste_def)

section \<open>The claims\<close>

subsection \<open>C1: colour policy of the Finder\<close>

text \<open>
  Claim C1.  Let the adapter's finder be the production Finder over some matching
  engine.  For every match request with a minimum confidence of at least 0.99,
  \<open>findOnScreenRegion\<close> yields what the Finder makes of the engine's answer to the
  full-colour haystack and needle; for every match request with a minimum confidence
  below 0.99 it yields what the Finder makes of the engine's answer to the haystack and
  the needle both converted to grayscale.  The boundary 0.99 itself is on the
  full-colour side.
\<close>

theorem finder_colour_policy:
  assumes "finder this = TemplateMatchingFinder engine"
    and "haystack = engine_haystack engine (haystackSource req) w"
  shows "(0.99 \<le> minConfidence req \<longrightarrow>
            findOnScreenRegion this req w =
              matchOutcome (minConfidence req)
                (engine_match engine haystack (needle req) (minConfidence req) w))
       \<and> (minConfidence req < 0.99 \<longrightarrow>
            findOnScreenRegion this req w =
              matchOutcome (minConfidence req)
                (engine_match engine (engine_toGrayscale engine haystack)
                   (engine_toGrayscale engine (needle req)) (minConfidence req) w))"
  using assms
  by (simp add: findOnScreenRegion_production TemplateMatchingFinder_findMatch_def
      searchImages_def)

text \<open>
  With an engine that records its invocations: at 0.99 the engine is invoked once, with
  the colour images, and at 0.98 once, with the two grayscale images.
\<close>

theorem finder_colour_policy_witness:
  "findOnScreenRegion
     (new_VisionAdapter
        (production_vision (recording_engine (Candidates [candidate 1])) (scripted_worker []))
        None)
     (request 0.99) []
   = (Returned (Resolved (candidate 1)), [(screenshot, blank)])
   \<and> findOnScreenRegion
     (new_VisionAdapter
        (production_vision (recording_engine (Candidates [candidate 1])) (scripted_worker []))
        None)
     (request 0.98) []
   = (Returned (Resolved (candidate 1)),
      [(screenshot\<lparr> image_format := Some ''gray'' \<rparr>, blank\<lparr> image_format := Some ''gray'' \<rparr>)])"
proof -
  let ?engine = "recording_engine (Candidates [candidate 1])"
  let ?adapter = "new_VisionAdapter (production_vision ?engine (scripted_worker [])) None"
  have bound: "finder ?adapter = TemplateMatchingFinder ?engine"
    by (simp add: new_VisionAdapter_def production_vision_def)
  have out: "matchOutcome c (Candidates [candidate 1], log)
      = (Returned (if c \<le> 1 then Resolved (candidate 1) else Rejected NoMatchFound), log)"
    for c and log :: "(image \<times> image) list"
    by (simp add: matchOutcome_def selectMatch_def bestCandidate_def candidate_def)
  show ?thesis
    using finder_colour_policy [OF bound refl, of "request 0.99" "[]"]
      finder_colour_policy [OF bound refl, of "request 0.98" "[]"]
    by (simp add: out request_def recording_engine_def)
qed

subsection \<open>C2: the best candidate\<close>



subsection \<open>C3: no match found\<close>

text \<open>
  Claim C3.  Let the adapter's finder be the production Finder and let the engine answer
  the request with a list of candidates (possibly empty) none of which has a confidence
  of at least the minimum confidence of the request.  Then \<open>findOnScreenRegion\<close> is
  rejected with \<open>NoMatchFound\<close>: a failure on the error channel, not a fulfilment with
  an empty or null result.
\<close>

theorem finder_no_match_found:
  assumes "finder this = TemplateMatchingFinder engine"
    and "searchImages engine req w = (h, n)"
    and "engine_match engine h n (minConfidence req) w = (Candidates cs, w')"
    and "\<forall>c\<in>set cs. confidence c < minConfidence req"
  shows "findOnScreenRegion this req w = (Returned (Rejected NoMatchFound), w')"
  using findOnScreenRegion_candidates [OF assms(1-3)] selectMatch_below [OF assms(4)]
  by simp

text \<open>
  One candidate of confidence 0.5 against the minimum confidence 0.8, and no candidate
  at all.
\<close>

theorem finder_no_match_found_witness:
  "findOnScreenRegion
     (new_VisionAdapter
        (production_vision (recording_engine (Candidates [candidate 0.5])) (scripted_worker []))
        None)
     (request 0.8) []
   = (Returned (Rejected NoMatchFound),
      [(screenshot\<lparr> image_format := Some ''gray'' \<rparr>, blank\<lparr> image_format := Some ''gray'' \<rparr>)])
   \<and> findOnScreenRegion
     (new_VisionAdapter
        (production_vision (recording_engine (Candidates [])) (scripted_worker []))
        None)
     (request 0.8) []
   = (Returned (Rejected NoMatchFound),
      [(screenshot\<lparr> image_format := Some ''gray'' \<rparr>, blank\<lparr> image_format := Some ''gray'' \<rparr>)])"
proof -
  let ?gray = "(screenshot\<lparr> image_format := Some ''gray'' \<rparr>, blank\<lparr> image_format := Some ''gray'' \<rparr>)"
  have bound: "finder (new_VisionAdapter (production_vision (recording_engine r)
      (scripted_worker [])) None) = TemplateMatchingFinder (recording_engine r)" for r
    by (simp add: new_VisionAdapter_def production_vision_def)
  have images: "searchImages (recording_engine r) (request 0.8) [] = ?gray" for r
    by (simp add: searchImages_def request_def recording_engine_def)
  have answer: "engine_match (recording_engine r) (fst ?gray) (snd ?gray)
      (minConfidence (request 0.8)) [] = (r, [?gray])" for r
    by (simp add: recording_engine_def)
  have low: "\<forall>c\<in>set [candidate 0.5]. confidence c < minConfidence (request 0.8)"
    by (simp add: candidate_def request_def)
  have none: "\<forall>c\<in>set []. confidence c < minConfidence (request 0.8)"
    by simp
  show ?thesis
    using finder_no_match_found [OF bound images answer [unfolded fst_conv snd_conv] low]
      finder_no_match_found [OF bound images answer [unfolded fst_conv snd_conv] none]
    by simp
qed

subsection \<open>C4: one failure channel\<close>

text \<open>
  Claim C4.  For every finder: if the finder's \<open>findMatch\<close> throws synchronously with
  an error, \<open>findOnScreenRegion\<close> returns a promise rejected with that error; if it
  returns a promise rejected with an error, \<open>findOnScreenRegion\<close> returns a promise
  rejected with the same error, so the two cases look alike to the caller; a fulfilment
  is passed on with its value, a promise that never settles stays unsettled, and
  \<open>findOnScreenRegion\<close> itself never throws synchronously.  No error is swallowed and
  no default result is put in its place.
\<close>

theorem findOnScreenRegion_uniform_failure:
  "(finder_findMatch (finder this) req w = (Thrown e, w') \<longrightarrow>
      findOnScreenRegion this req w = (Returned (Rejected e), w'))
   \<and> (finder_findMatch (finder this) req w = (Returned (Rejected e), w') \<longrightarrow>
      findOnScreenRegion this req w = (Returned (Rejected e), w'))
   \<and> (finder_findMatch (finder this) req w = (Returned (Resolved r), w') \<longrightarrow>
      findOnScreenRegion this req w = (Returned (Resolved r), w'))
   \<and> (finder_findMatch (finder this) req w = (Returned Pending, w') \<longrightarrow>
      findOnScreenRegion this req w = (Returned Pending, w'))
   \<and> (\<forall>x. fst (findOnScreenRegion this req w) \<noteq> Thrown x)"
  by (auto simp: findOnScreenRegion_def split: prod.splits call.splits promise.splits)

text \<open>
  A finder that throws, one that rejects, one that fulfils, and the default finder of
  the stub production, which never settles.
\<close>

theorem findOnScreenRegion_uniform_failure_witness:
  "findOnScreenRegion
     (new_VisionAdapter stub_vision
        (Some (empty_vision_config\<lparr> config_finder := Some (stub_finder (Thrown (JsError ''boom''))) \<rparr>)))
     (request 0.9) (0::nat)
   = (Returned (Rejected (JsError ''boom'')), 0)
   \<and> findOnScreenRegion
     (new_VisionAdapter stub_vision
        (Some (empty_vision_config\<lparr> config_finder :=
           Some (stub_finder (Returned (Rejected (JsError ''boom'')))) \<rparr>)))
     (request 0.9) (0::nat)
   = (Returned (Rejected (JsError ''boom'')), 0)
   \<and> findOnScreenRegion
     (new_VisionAdapter stub_vision
        (Some (empty_vision_config\<lparr> config_finder :=
           Some (stub_finder (Returned (Resolved (candidate 1)))) \<rparr>)))
     (request 0.9) (0::nat)
   = (Returned (Resolved (candidate 1)), 0)
   \<and> findOnScreenRegion (new_VisionAdapter stub_vision None) (request 0.9) (0::nat)
   = (Returned Pending, 0)"
proof -
  have bound: "finder_findMatch (finder (new_VisionAdapter stub_vision
      (Some (empty_vision_config\<lparr> config_finder := Some (stub_finder r) \<rparr>)))) m (w::nat) = (r, w)"
    for r m w
    by (simp add: new_VisionAdapter_def stub_finder_def)
  have dflt: "finder_findMatch (finder (new_VisionAdapter stub_vision None)) m (w::nat)
      = (Returned Pending, w)" for m w
    by (simp add: new_VisionAdapter_def stub_vision_def stub_finder_def)
  show ?thesis
    using findOnScreenRegion_uniform_failure
        [of "new_VisionAdapter stub_vision
              (Some (empty_vision_config\<lparr> config_finder :=
                 Some (stub_finder (Thrown (JsError ''boom''))) \<rparr>))"
            "request 0.9" "0::nat" "JsError ''boom''" 0]
      findOnScreenRegion_uniform_failure
        [of "new_VisionAdapter stub_vision
              (Some (empty_vision_config\<lparr> config_finder :=
                 Some (stub_finder (Returned (Rejected (JsError ''boom'')))) \<rparr>))"
            "request 0.9" "0::nat" "JsError ''boom''" 0]
      findOnScreenRegion_uniform_failure
        [of "new_VisionAdapter stub_vision
              (Some (empty_vision_config\<lparr> config_finder :=
                 Some (stub_finder (Returned (Resolved (candidate 1)))) \<rparr>))"
            "request 0.9" "0::nat" _ 0 "candidate 1"]
      findOnScreenRegion_uniform_failure
        [of "new_VisionAdapter stub_vision None" "request 0.9" "0::nat" _ 0]
    by (simp add: bound dflt)
qed

subsection \<open>C5: failure of the OCR engine\<close>

text \<open>
  Claim C5.  Let the adapter's text reader be the production Text Reader over some OCR
  worker, and let the job of the worker for the image and the language (English if none
  is given) report an error with a message as its first terminal notification, after
  any number of progress notifications.  Then \<open>readText\<close> and \<open>readWords\<close> are both
  rejected with \<open>OcrFailure\<close> carrying that message; neither is fulfilled with the empty
  string or with the empty sequence.
\<close>

theorem ocr_failure_surfaces:
  assumes "screenReader this = TesseractReader worker"
    and "worker_recognize worker img (case lang of None \<Rightarrow> ENG | Some l \<Rightarrow> l) w
           = (ps @ ErrorEvent msg # rest, w')"
    and "\<forall>ev\<in>set ps. is_progress ev"
  shows "readText this img lang w = (Returned (Rejected (OcrFailure msg)), w')
       \<and> readWords this img lang w = (Returned (Rejected (OcrFailure msg)), w')
       \<and> readText this img lang w \<noteq> (Returned (Resolved []), w')
       \<and> readWords this img lang w \<noteq> (Returned (Resolved []), w')"
  using assms(1,2)
  by (simp add: readText_def readWords_def TesseractReader_def TesseractReader_readPage_def
      TesseractReader_readWords_def job_outcome_def run_job_error [OF assms(3)])

text \<open>
  A job that reports progress, then the error, and after it a result that comes too late.
\<close>

theorem ocr_failure_surfaces_witness:
  "readText
     (new_VisionAdapter
        (production_vision (recording_engine NoResponse)
           (scripted_worker
              [ProgressEvent \<lparr> progress_status = ''recognizing text'', progress_progress = 0.5 \<rparr>,
               ErrorEvent ''bad image'',
               ResultEvent \<lparr> page_blocks = [], page_text = [], page_confidence = 0 \<rparr>]))
        None)
     blank None []
   = (Returned (Rejected (OcrFailure ''bad image'')), [])
   \<and> readWords
     (new_VisionAdapter
        (production_vision (recording_engine NoResponse)
           (scripted_worker
              [ProgressEvent \<lparr> progress_status = ''recognizing text'', progress_progress = 0.5 \<rparr>,
               ErrorEvent ''bad image'',
               ResultEvent \<lparr> page_blocks = [], page_text = [], page_confidence = 0 \<rparr>]))
        None)
     blank None []
   = (Returned (Rejected (OcrFailure ''bad image'')), [])"
proof -
  let ?p = "ProgressEvent \<lparr> progress_status = ''recognizing text'', progress_progress = 0.5 \<rparr>"
  let ?r = "ResultEvent \<lparr> page_blocks = [], page_text = [], page_confidence = 0 \<rparr>"
  let ?worker = "scripted_worker [?p, ErrorEvent ''bad image'', ?r]"
  let ?adapter = "new_VisionAdapter (production_vision (recording_engine NoResponse) ?worker) None"
  have bound: "screenReader ?adapter = TesseractReader ?worker"
    by (simp add: new_VisionAdapter_def production_vision_def)
  have job: "worker_recognize ?worker blank (case None of None \<Rightarrow> ENG | Some l \<Rightarrow> l) []
      = ([?p] @ ErrorEvent ''bad image'' # [?r], [])"
    by (simp add: scripted_worker_def)
  have running: "\<forall>ev\<in>set [?p]. is_progress ev"
    by simp
  show ?thesis
    using ocr_failure_surfaces [OF bound job running] by simp
qed

subsection \<open>C6: the default language\<close>

text \<open>
  Claim C6.  \<open>readText\<close> and \<open>readWords\<close> called without a language call the text
  reader with \<open>ENG\<close>; called with a language they call the text reader with that
  language.
\<close>

theorem read_language_defaults_to_english:
  "readText this img None = reader_readPage (screenReader this) img ENG
   \<and> readWords this img None = reader_readWords (screenReader this) img ENG
   \<and> readText this img (Some l) = reader_readPage (screenReader this) img l
   \<and> readWords this img (Some l) = reader_readWords (screenReader this) img l"
  by (simp add: readText_def readWords_def)

subsection \<open>C7: the configuration record\<close>

text \<open>
  Claim C7.  Take the adapter that a constructor builds from an optional configuration
  record, after any sequence of calls of its public methods.  For each of the four
  collaborators of the vision adapter (finder, screen, screen reader, data sink) and each
  of the three of the native adapter (clipboard, keyboard, mouse): if the configuration
  record is given and sets the field, the adapter's collaborator is the one from the
  record, and a call of every public method that belongs to this collaborator is the call
  of the corresponding operation of the collaborator from the record, with the same
  arguments, the same result and the same effect; if no configuration record is given, or
  the record leaves the field unset, the same holds with the production collaborator.
\<close>

theorem constructor_binds_collaborators:
  assumes "this = fst (snd (vision_calls ops (new_VisionAdapter env config) w0))"
    and "nthis = fst (snd (native_calls nops (new_NativeAdapter nenv nconfig) nw0))"
  shows "(config = Some c \<and> config_finder c = Some f \<longrightarrow>
         finder this = f
       \<and> vision_call (FindOnScreenRegion req) this w =
           deliver MatchValue this
             (case finder_findMatch f req w of
             (Thrown e, w') \<Rightarrow> (Returned (Rejected e), w')
           | (Returned p, w') \<Rightarrow> (Returned p, w')))
     \<and> (config = None \<or> (config = Some c \<and> config_finder c = None) \<longrightarrow>
         finder this = new_TemplateMatchingFinder env
       \<and> vision_call (FindOnScreenRegion req) this w =
           deliver MatchValue this
             (case finder_findMatch (new_TemplateMatchingFinder env) req w of
             (Thrown e, w') \<Rightarrow> (Returned (Rejected e), w')
           | (Returned p, w') \<Rightarrow> (Returned p, w')))
     \<and> (config = Some c \<and> config_screen c = Some s \<longrightarrow>
         screen this = s
       \<and> vision_call GrabScreen this w =
           deliver ImageValue this
             (screen_grabScreen s w)
       \<and> vision_call (GrabScreenRegion r) this w =
           deliver ImageValue this
             (screen_grabScreenRegion s r w)
       \<and> vision_call ScreenWidth this w =
           deliver NumberValue this
             (screen_screenWidth s w)
       \<and> vision_call ScreenHeight this w =
           deliver NumberValue this
             (screen_screenHeight s w)
       \<and> vision_call ScreenSize this w =
           deliver RegionValue this
             (screen_screenSize s w))
     \<and> (config = None \<or> (config = Some c \<and> config_screen c = None) \<longrightarrow>
         screen this = new_ScreenAction env
       \<and> vision_call GrabScreen this w =
           deliver ImageValue this
             (screen_grabScreen (new_ScreenAction env) w)
       \<and> vision_call (GrabScreenRegion r) this w =
           deliver ImageValue this
             (screen_grabScreenRegion (new_ScreenAction env) r w)
       \<and> vision_call ScreenWidth this w =
           deliver NumberValue this
             (screen_screenWidth (new_ScreenAction env) w)
       \<and> vision_call ScreenHeight this w =
           deliver NumberValue this
             (screen_screenHeight (new_ScreenAction env) w)
       \<and> vision_call ScreenSize this w =
           deliver RegionValue this
             (screen_screenSize (new_ScreenAction env) w))
     \<and> (config = Some c \<and> config_screenReader c = Some t \<longrightarrow>
         screenReader this = t
       \<and> vision_call (ReadText img lang) this w =
           deliver TextValue this
             (reader_readPage t img
           (case lang of None \<Rightarrow> ENG | Some l \<Rightarrow> l) w)
       \<and> vision_call (ReadWords img lang) this w =
           deliver WordsValue this
             (reader_readWords t img
           (case lang of None \<Rightarrow> ENG | Some l \<Rightarrow> l) w))
     \<and> (config = None \<or> (config = Some c \<and> config_screenReader c = None) \<longrightarrow>
         screenReader this = new_TesseractReader env
       \<and> vision_call (ReadText img lang) this w =
           deliver TextValue this
             (reader_readPage (new_TesseractReader env) img
           (case lang of None \<Rightarrow> ENG | Some l \<Rightarrow> l) w)
       \<and> vision_call (ReadWords img lang) this w =
           deliver WordsValue this
             (reader_readWords (new_TesseractReader env) img
           (case lang of None \<Rightarrow> ENG | Some l \<Rightarrow> l) w))
     \<and> (config = Some c \<and> config_dataSink c = Some d \<longrightarrow>
         dataSink this = d
       \<and> vision_call (SaveImage snap path) this w =
           deliver (\<lambda>_. VoidValue) this
             (sink_store d snap path w))
     \<and> (config = None \<or> (config = Some c \<and> config_dataSink c = None) \<longrightarrow>
         dataSink this = new_ImageWriter env
       \<and> vision_call (SaveImage snap path) this w =
           deliver (\<lambda>_. VoidValue) this
             (sink_store (new_ImageWriter env) snap path w))
     \<and> (nconfig = Some nc \<and> config_clipboard nc = Some cb \<longrightarrow>
         clipboard nthis = cb
       \<and> native_call (Copy str) nthis nw =
           deliver_async (\<lambda>_. NoValue) nthis
             (clipboard_copy cb str nw)
       \<and> native_call Paste nthis nw =
           deliver_async StringValue nthis
             (clipboard_paste cb nw))
     \<and> (nconfig = None \<or> (nconfig = Some nc \<and> config_clipboard nc = None) \<longrightarrow>
         clipboard nthis = new_ClipboardAction nenv
       \<and> native_call (Copy str) nthis nw =
           deliver_async (\<lambda>_. NoValue) nthis
             (clipboard_copy (new_ClipboardAction nenv) str nw)
       \<and> native_call Paste nthis nw =
           deliver_async StringValue nthis
             (clipboard_paste (new_ClipboardAction nenv) nw))
     \<and> (nconfig = Some nc \<and> config_keyboard nc = Some kb \<longrightarrow>
         keyboard nthis = kb
       \<and> native_call (SetKeyboardDelay delay) nthis nw =
           deliver_sync nthis
             (keyboard_setKeyboardDelay kb delay nw)
       \<and> native_call (TypeInput str) nthis nw =
           deliver_async (\<lambda>_. NoValue) nthis
             (keyboard_type kb str nw)
       \<and> native_call (Click keys) nthis nw =
           deliver_async (\<lambda>_. NoValue) nthis
             (keyboard_click kb keys nw)
       \<and> native_call (PressKey keys) nthis nw =
           deliver_async (\<lambda>_. NoValue) nthis
             (keyboard_pressKey kb keys nw)
       \<and> native_call (ReleaseKey keys) nthis nw =
           deliver_async (\<lambda>_. NoValue) nthis
             (keyboard_releaseKey kb keys nw))
     \<and> (nconfig = None \<or> (nconfig = Some nc \<and> config_keyboard nc = None) \<longrightarrow>
         keyboard nthis = new_KeyboardAction nenv
       \<and> native_call (SetKeyboardDelay delay) nthis nw =
           deliver_sync nthis
             (keyboard_setKeyboardDelay (new_KeyboardAction nenv) delay nw)
       \<and> native_call (TypeInput str) nthis nw =
           deliver_async (\<lambda>_. NoValue) nthis
             (keyboard_type (new_KeyboardAction nenv) str nw)
       \<and> native_call (Click keys) nthis nw =
           deliver_async (\<lambda>_. NoValue) nthis
             (keyboard_click (new_KeyboardAction nenv) keys nw)
       \<and> native_call (PressKey keys) nthis nw =
           deliver_async (\<lambda>_. NoValue) nthis
             (keyboard_pressKey (new_KeyboardAction nenv) keys nw)
       \<and> native_call (ReleaseKey keys) nthis nw =
           deliver_async (\<lambda>_. NoValue) nthis
             (keyboard_releaseKey (new_KeyboardAction nenv) keys nw))
     \<and> (nconfig = Some nc \<and> config_mouse nc = Some m \<longrightarrow>
         mouse nthis = m
       \<and> native_call (SetMouseDelay delay) nthis nw =
           deliver_sync nthis
             (mouse_setMouseDelay m delay nw)
       \<and> native_call (SetMousePosition pt) nthis nw =
           deliver_async (\<lambda>_. NoValue) nthis
             (mouse_setMousePosition m pt nw)
       \<and> native_call CurrentMousePosition nthis nw =
           deliver_async PointValue nthis
             (mouse_currentMousePosition m nw)
       \<and> native_call LeftClick nthis nw =
           deliver_async (\<lambda>_. NoValue) nthis
             (mouse_leftClick m nw)
       \<and> native_call RightClick nthis nw =
           deliver_async (\<lambda>_. NoValue) nthis
             (mouse_rightClick m nw)
       \<and> native_call MiddleClick nthis nw =
           deliver_async (\<lambda>_. NoValue) nthis
             (mouse_middleClick m nw)
       \<and> native_call (PressButton btn) nthis nw =
           deliver_async (\<lambda>_. NoValue) nthis
             (mouse_pressButton m btn nw)
       \<and> native_call (ReleaseButton btn) nthis nw =
           deliver_async (\<lambda>_. NoValue) nthis
             (mouse_releaseButton m btn nw)
       \<and> native_call (ScrollUp amount) nthis nw =
           deliver_async (\<lambda>_. NoValue) nthis
             (mouse_scrollUp m amount nw)
       \<and> native_call (ScrollDown amount) nthis nw =
           deliver_async (\<lambda>_. NoValue) nthis
             (mouse_scrollDown m amount nw)
       \<and> native_call (ScrollLeft amount) nthis nw =
           deliver_async (\<lambda>_. NoValue) nthis
             (mouse_scrollLeft m amount nw)
       \<and> native_call (ScrollRight amount) nthis nw =
           deliver_async (\<lambda>_. NoValue) nthis
             (mouse_scrollRight m amount nw))
     \<and> (nconfig = None \<or> (nconfig = Some nc \<and> config_mouse nc = None) \<longrightarrow>
         mouse nthis = new_MouseAction nenv
       \<and> native_call (SetMouseDelay delay) nthis nw =
           deliver_sync nthis
             (mouse_setMouseDelay (new_MouseAction nenv) delay nw)
       \<and> native_call (SetMousePosition pt) nthis nw =
           deliver_async (\<lambda>_. NoValue) nthis
             (mouse_setMousePosition (new_MouseAction nenv) pt nw)
       \<and> native_call CurrentMousePosition nthis nw =
           deliver_async PointValue nthis
             (mouse_currentMousePosition (new_MouseAction nenv) nw)
       \<and> native_call LeftClick nthis nw =
           deliver_async (\<lambda>_. NoValue) nthis
             (mouse_leftClick (new_MouseAction nenv) nw)
       \<and> native_call RightClick nthis nw =
           deliver_async (\<lambda>_. NoValue) nthis
             (mouse_rightClick (new_MouseAction nenv) nw)
       \<and> native_call MiddleClick nthis nw =
           deliver_async (\<lambda>_. NoValue) nthis
             (mouse_middleClick (new_MouseAction nenv) nw)
       \<and> native_call (PressButton btn) nthis nw =
           deliver_async (\<lambda>_. NoValue) nthis
             (mouse_pressButton (new_MouseAction nenv) btn nw)
       \<and> native_call (ReleaseButton btn) nthis nw =
           deliver_async (\<lambda>_. NoValue) nthis
             (mouse_releaseButton (new_MouseAction nenv) btn nw)
       \<and> native_call (ScrollUp amount) nthis nw =
           deliver_async (\<lambda>_. NoValue) nthis
             (mouse_scrollUp (new_MouseAction nenv) amount nw)
       \<and> native_call (ScrollDown amount) nthis nw =
           deliver_async (\<lambda>_. NoValue) nthis
             (mouse_scrollDown (new_MouseAction nenv) amount nw)
       \<and> native_call (ScrollLeft amount) nthis nw =
           deliver_async (\<lambda>_. NoValue) nthis
             (mouse_scrollLeft (new_MouseAction nenv) amount nw)
       \<and> native_call (ScrollRight amount) nthis nw =
           deliver_async (\<lambda>_. NoValue) nthis
             (mouse_scrollRight (new_MouseAction nenv) amount nw))"
proof -
  have v: "this = new_VisionAdapter env config"
    using assms(1) by (simp add: vision_calls_this)
  have n: "nthis = new_NativeAdapter nenv nconfig"
    using assms(2) by (simp add: native_calls_this)
  show ?thesis
    unfolding vision_call_collaborator native_call_collaborator
    unfolding v n
    by (intro conjI impI)
      (auto simp: new_VisionAdapter_set new_VisionAdapter_unset
         new_NativeAdapter_set new_NativeAdapter_unset)
qed

text \<open>
  A record with every field set, before and after some calls; a record with no field
  set; no record; and calls that reach the substituted and the production collaborators.
\<close>

theorem constructor_binds_collaborators_witness:
  "new_VisionAdapter stub_vision (Some full_vision_config)
     = \<lparr> dataSink = stub_sink (Resolved ()),
         finder = stub_finder (Thrown (JsError ''double'')),
         screen = stub_screen screenshot,
         screenReader = (stub_reader ''text'' :: nat TextReader) \<rparr>
   \<and> fst (snd (vision_calls [GrabScreen, ReadText blank None]
         (new_VisionAdapter stub_vision (Some full_vision_config)) (0::nat)))
     = \<lparr> dataSink = stub_sink (Resolved ()),
         finder = stub_finder (Thrown (JsError ''double'')),
         screen = stub_screen screenshot,
         screenReader = stub_reader ''text'' \<rparr>
   \<and> new_VisionAdapter stub_vision (Some empty_vision_config)
     = \<lparr> dataSink = stub_sink Pending, finder = stub_finder (Returned Pending),
         screen = stub_screen blank, screenReader = (stub_reader [] :: nat TextReader) \<rparr>
   \<and> new_VisionAdapter stub_vision None
     = \<lparr> dataSink = stub_sink Pending, finder = stub_finder (Returned Pending),
         screen = stub_screen blank, screenReader = (stub_reader [] :: nat TextReader) \<rparr>
   \<and> new_NativeAdapter stub_native (Some full_native_config)
     = \<lparr> clipboard = stub_clipboard ''clip'',
         keyboard = (stub_keyboard (Resolved ()) :: (nat, nat) KeyboardActionProvider),
         mouse = (stub_mouse (3, 4) :: (nat, nat \<times> nat, nat) MouseActionProvider) \<rparr>
   \<and> fst (snd (native_calls [LeftClick, Paste]
         (new_NativeAdapter stub_native (Some full_native_config)) (0::nat)))
     = \<lparr> clipboard = stub_clipboard ''clip'',
         keyboard = (stub_keyboard (Resolved ()) :: (nat, nat) KeyboardActionProvider),
         mouse = (stub_mouse (3, 4) :: (nat, nat \<times> nat, nat) MouseActionProvider) \<rparr>
   \<and> new_NativeAdapter stub_native (Some empty_native_config)
     = \<lparr> clipboard = stub_clipboard [],
         keyboard = (stub_keyboard Pending :: (nat, nat) KeyboardActionProvider),
         mouse = (stub_mouse (0, 0) :: (nat, nat \<times> nat, nat) MouseActionProvider) \<rparr>
   \<and> new_NativeAdapter stub_native None
     = \<lparr> clipboard = stub_clipboard [],
         keyboard = (stub_keyboard Pending :: (nat, nat) KeyboardActionProvider),
         mouse = (stub_mouse (0, 0) :: (nat, nat \<times> nat, nat) MouseActionProvider) \<rparr>
   \<and> vision_call GrabScreen (new_VisionAdapter stub_vision (Some full_vision_config)) (0::nat)
     = (Returned (Resolved (ImageValue screenshot)),
        new_VisionAdapter stub_vision (Some full_vision_config), 0)
   \<and> vision_call (FindOnScreenRegion (request 0.9))
         (new_VisionAdapter stub_vision (Some full_vision_config)) (0::nat)
     = (Returned (Rejected (JsError ''double'')),
        new_VisionAdapter stub_vision (Some full_vision_config), 0)
   \<and> vision_call (ReadText blank None)
         (new_VisionAdapter stub_vision (Some full_vision_config)) (0::nat)
     = (Returned (Resolved (TextValue ''text'')),
        new_VisionAdapter stub_vision (Some full_vision_config), 0)
   \<and> vision_call (SaveImage screenshot ''a.png'')
         (new_VisionAdapter stub_vision (Some full_vision_config)) (0::nat)
     = (Returned (Resolved VoidValue),
        new_VisionAdapter stub_vision (Some full_vision_config), 0)
   \<and> vision_call GrabScreen (new_VisionAdapter stub_vision None) (0::nat)
     = (Returned (Resolved (ImageValue blank)), new_VisionAdapter stub_vision None, 0)
   \<and> native_call Paste
         (new_NativeAdapter stub_native (Some full_native_config)
            :: (nat, nat \<times> nat, nat, nat) NativeAdapter) 0
     = (Async (Returned (Resolved (StringValue ''clip''))),
        new_NativeAdapter stub_native (Some full_native_config), 0)
   \<and> native_call CurrentMousePosition
         (new_NativeAdapter stub_native (Some full_native_config)
            :: (nat, nat \<times> nat, nat, nat) NativeAdapter) 0
     = (Async (Returned (Resolved (PointValue (3, 4)))),
        new_NativeAdapter stub_native (Some full_native_config), 0)
   \<and> native_call (TypeInput ''hi'')
         (new_NativeAdapter stub_native (Some full_native_config)
            :: (nat, nat \<times> nat, nat, nat) NativeAdapter) 0
     = (Async (Returned (Resolved NoValue)),
        new_NativeAdapter stub_native (Some full_native_config), 0)
   \<and> native_call Paste
         (new_NativeAdapter stub_native None :: (nat, nat \<times> nat, nat, nat) NativeAdapter) 0
     = (Async (Returned (Resolved (StringValue []))), new_NativeAdapter stub_native None, 0)"
proof -
  let ?ops = "[GrabScreen, ReadText blank None]"
  let ?nops = "[LeftClick, Paste] :: (nat \<times> nat, nat, nat) native_op list"
  let ?none = "[] :: (nat \<times> nat, nat, nat) native_op list"
  have vision_eq: "a = \<lparr> dataSink = d, finder = f, screen = s, screenReader = t \<rparr>"
    if "dataSink a = d" "finder a = f" "screen a = s" "screenReader a = t"
    for a :: "nat VisionAdapter" and d f s t
    using that by (cases a) simp
  have native_eq: "a = \<lparr> clipboard = c, keyboard = k, mouse = m \<rparr>"
    if "clipboard a = c" "keyboard a = k" "mouse a = m"
    for a :: "(nat, nat \<times> nat, nat, nat) NativeAdapter" and c k m
    using that by (cases a) simp
  have is_set:
    "config_finder full_vision_config = Some (stub_finder (Thrown (JsError ''double'')))"
    "config_screen full_vision_config = Some (stub_screen screenshot)"
    "config_screenReader full_vision_config = Some (stub_reader ''text'')"
    "config_dataSink full_vision_config = Some (stub_sink (Resolved ()))"
    "config_clipboard full_native_config = Some (stub_clipboard ''clip'')"
    "config_keyboard full_native_config = Some (stub_keyboard (Resolved ()))"
    "config_mouse full_native_config = Some (stub_mouse (3, 4))"
    by (simp_all add: full_vision_config_def full_native_config_def)
  have is_unset:
    "config_finder empty_vision_config = None"
    "config_screen empty_vision_config = None"
    "config_screenReader empty_vision_config = None"
    "config_dataSink empty_vision_config = None"
    "config_clipboard empty_native_config = None"
    "config_keyboard empty_native_config = None"
    "config_mouse empty_native_config = None"
    by (simp_all add: empty_vision_config_def empty_native_config_def)
  have production:
    "new_ImageWriter stub_vision = stub_sink Pending"
    "new_TemplateMatchingFinder stub_vision = stub_finder (Returned Pending)"
    "new_ScreenAction stub_vision = stub_screen blank"
    "new_TesseractReader stub_vision = stub_reader []"
    "new_ClipboardAction stub_native = stub_clipboard []"
    "new_KeyboardAction stub_native = stub_keyboard Pending"
    "new_MouseAction stub_native = stub_mouse (0, 0)"
    by (simp_all add: stub_vision_def stub_native_def)
  note constructed =
    constructor_binds_collaborators
      [where ops = "[]" and env = stub_vision and config = "Some full_vision_config"
         and w0 = "0::nat" and w = "0::nat" and c = full_vision_config
         and req = "request 0.9" and r = origin and img = blank and lang = None
         and snap = screenshot and path = "''a.png''" and str = "''hi''" and delay = "0"
         and keys = "[] :: nat list" and pt = "(0, 0)" and btn = "0::nat" and amount = "0"
         and nw = "0::nat"
         and f = "stub_finder (Thrown (JsError ''double''))"
         and s = "stub_screen screenshot" and t = "stub_reader ''text''"
         and d = "stub_sink (Resolved ())"
         and nops = ?none and nenv = stub_native
         and nconfig = "Some full_native_config" and nw0 = "0::nat"
         and nc = full_native_config and cb = "stub_clipboard ''clip''"
         and kb = "stub_keyboard (Resolved ())" and m = "stub_mouse (3, 4)",
       OF refl refl, simplified vision_calls.simps native_calls.simps fst_conv snd_conv]
  note used =
    constructor_binds_collaborators
      [where ops = ?ops and env = stub_vision and config = "Some full_vision_config"
         and w0 = "0::nat" and w = "0::nat" and nw = "0::nat" and c = full_vision_config
         and req = "request 0.9" and r = origin and img = blank and lang = None
         and snap = screenshot and path = "''a.png''" and str = "''hi''" and delay = "0"
         and keys = "[] :: nat list" and pt = "(0, 0)" and btn = "0::nat" and amount = "0"
         and f = "stub_finder (Thrown (JsError ''double''))"
         and s = "stub_screen screenshot" and t = "stub_reader ''text''"
         and d = "stub_sink (Resolved ())"
         and nops = ?nops and nenv = stub_native
         and nconfig = "Some full_native_config" and nw0 = "0::nat"
         and nc = full_native_config and cb = "stub_clipboard ''clip''"
         and kb = "stub_keyboard (Resolved ())" and m = "stub_mouse (3, 4)",
       OF refl refl]
  note empty =
    constructor_binds_collaborators
      [where ops = "[]" and env = stub_vision and config = "Some empty_vision_config"
         and w0 = "0::nat" and w = "0::nat" and nw = "0::nat" and c = empty_vision_config
         and req = "request 0.9" and r = origin and img = blank and lang = None
         and snap = screenshot and path = "''a.png''" and str = "''hi''" and delay = "0"
         and keys = "[] :: nat list" and pt = "(0, 0)" and btn = "0::nat" and amount = "0"
         and nops = ?none and nenv = stub_native
         and nconfig = "Some empty_native_config" and nw0 = "0::nat"
         and nc = empty_native_config,
       OF refl refl, simplified vision_calls.simps native_calls.simps fst_conv snd_conv]
  note absent =
    constructor_binds_collaborators
      [where ops = "[]" and env = stub_vision and config = None
         and w0 = "0::nat" and w = "0::nat"
         and req = "request 0.9" and r = origin and img = blank and lang = None
         and snap = screenshot and path = "''a.png''" and str = "''hi''" and delay = "0"
         and keys = "[] :: nat list" and pt = "(0, 0)" and btn = "0::nat" and amount = "0"
         and nops = ?none and nenv = stub_native
         and nconfig = None and nw0 = "0::nat" and nw = "0::nat",
       OF refl refl, simplified vision_calls.simps native_calls.simps fst_conv snd_conv]
  have a: "new_VisionAdapter stub_vision (Some full_vision_config)
      = \<lparr> dataSink = stub_sink (Resolved ()),
          finder = stub_finder (Thrown (JsError ''double'')),
          screen = stub_screen screenshot,
          screenReader = (stub_reader ''text'' :: nat TextReader) \<rparr>"
    using constructed by (intro vision_eq) (simp_all add: is_set)
  have b: "fst (snd (vision_calls ?ops
        (new_VisionAdapter stub_vision (Some full_vision_config)) (0::nat)))
      = \<lparr> dataSink = stub_sink (Resolved ()),
          finder = stub_finder (Thrown (JsError ''double'')),
          screen = stub_screen screenshot,
          screenReader = stub_reader ''text'' \<rparr>"
    using used by (intro vision_eq) (simp_all add: is_set del: vision_calls.simps native_calls.simps)
  have c: "new_VisionAdapter stub_vision (Some empty_vision_config)
      = \<lparr> dataSink = stub_sink Pending, finder = stub_finder (Returned Pending),
          screen = stub_screen blank, screenReader = (stub_reader [] :: nat TextReader) \<rparr>"
    using empty by (intro vision_eq) (simp_all add: is_unset production)
  have d: "new_VisionAdapter stub_vision None
      = \<lparr> dataSink = stub_sink Pending, finder = stub_finder (Returned Pending),
          screen = stub_screen blank, screenReader = (stub_reader [] :: nat TextReader) \<rparr>"
    using absent by (intro vision_eq) (simp_all add: production)
  have e: "new_NativeAdapter stub_native (Some full_native_config)
      = \<lparr> clipboard = stub_clipboard ''clip'',
          keyboard = (stub_keyboard (Resolved ()) :: (nat, nat) KeyboardActionProvider),
          mouse = (stub_mouse (3, 4) :: (nat, nat \<times> nat, nat) MouseActionProvider) \<rparr>"
    using constructed by (intro native_eq) (simp_all add: is_set)
  have f: "fst (snd (native_calls ?nops
        (new_NativeAdapter stub_native (Some full_native_config)) (0::nat)))
      = \<lparr> clipboard = stub_clipboard ''clip'',
          keyboard = (stub_keyboard (Resolved ()) :: (nat, nat) KeyboardActionProvider),
          mouse = (stub_mouse (3, 4) :: (nat, nat \<times> nat, nat) MouseActionProvider) \<rparr>"
    using used by (intro native_eq) (simp_all add: is_set del: vision_calls.simps native_calls.simps)
  have g: "new_NativeAdapter stub_native (Some empty_native_config)
      = \<lparr> clipboard = stub_clipboard [],
          keyboard = (stub_keyboard Pending :: (nat, nat) KeyboardActionProvider),
          mouse = (stub_mouse (0, 0) :: (nat, nat \<times> nat, nat) MouseActionProvider) \<rparr>"
    using empty by (intro native_eq) (simp_all add: is_unset production)
  have h: "new_NativeAdapter stub_native None
      = \<lparr> clipboard = stub_clipboard [],
          keyboard = (stub_keyboard Pending :: (nat, nat) KeyboardActionProvider),
          mouse = (stub_mouse (0, 0) :: (nat, nat \<times> nat, nat) MouseActionProvider) \<rparr>"
    using absent by (intro native_eq) (simp_all add: production)
  have i: "vision_call GrabScreen (new_VisionAdapter stub_vision (Some full_vision_config))
        (0::nat)
      = (Returned (Resolved (ImageValue screenshot)),
         new_VisionAdapter stub_vision (Some full_vision_config), 0)"
    using constructed by (simp add: is_set deliver_def stub_screen_def)
  have j: "vision_call (FindOnScreenRegion (request 0.9))
        (new_VisionAdapter stub_vision (Some full_vision_config)) (0::nat)
      = (Returned (Rejected (JsError ''double'')),
         new_VisionAdapter stub_vision (Some full_vision_config), 0)"
    using constructed by (simp add: is_set deliver_def stub_finder_def)
  have k: "vision_call (ReadText blank None)
        (new_VisionAdapter stub_vision (Some full_vision_config)) (0::nat)
      = (Returned (Resolved (TextValue ''text'')),
         new_VisionAdapter stub_vision (Some full_vision_config), 0)"
    using constructed by (simp add: is_set deliver_def stub_reader_def)
  have l: "vision_call (SaveImage screenshot ''a.png'')
        (new_VisionAdapter stub_vision (Some full_vision_config)) (0::nat)
      = (Returned (Resolved VoidValue),
         new_VisionAdapter stub_vision (Some full_vision_config), 0)"
    using constructed by (simp add: is_set deliver_def stub_sink_def)
  have m: "vision_call GrabScreen (new_VisionAdapter stub_vision None) (0::nat)
      = (Returned (Resolved (ImageValue blank)), new_VisionAdapter stub_vision None, 0)"
    using absent by (simp add: production deliver_def stub_screen_def)
  have n: "native_call Paste
        (new_NativeAdapter stub_native (Some full_native_config)
           :: (nat, nat \<times> nat, nat, nat) NativeAdapter) 0
      = (Async (Returned (Resolved (StringValue ''clip''))),
         new_NativeAdapter stub_native (Some full_native_config), 0)"
    using constructed by (simp add: is_set deliver_async_def stub_clipboard_def)
  have o: "native_call CurrentMousePosition
        (new_NativeAdapter stub_native (Some full_native_config)
           :: (nat, nat \<times> nat, nat, nat) NativeAdapter) 0
      = (Async (Returned (Resolved (PointValue (3, 4)))),
         new_NativeAdapter stub_native (Some full_native_config), 0)"
    using constructed by (simp add: is_set deliver_async_def stub_mouse_def)
  have p: "native_call (TypeInput ''hi'')
        (new_NativeAdapter stub_native (Some full_native_config)
           :: (nat, nat \<times> nat, nat, nat) NativeAdapter) 0
      = (Async (Returned (Resolved NoValue)),
         new_NativeAdapter stub_native (Some full_native_config), 0)"
    using constructed by (simp add: is_set deliver_async_def stub_keyboard_def)
  have q: "native_call Paste
        (new_NativeAdapter stub_native None :: (nat, nat \<times> nat, nat, nat) NativeAdapter) 0
      = (Async (Returned (Resolved (StringValue []))), new_NativeAdapter stub_native None, 0)"
    using absent by (simp add: production deliver_async_def stub_clipboard_def)
  from a b c d e f g h i j k l m n o p q show ?thesis
    by (intro conjI)
qed

subsection \<open>C8: saving an image\<close>

text \<open>
  Claim C8, as amended.  \<open>saveImage\<close> is the \<open>store\<close> operation of the adapter's data
  sink with the same image and path: the same result and the same effect.  For an adapter
  built from a configuration record with a data sink, that is the sink of the record,
  whichever it is, and for an adapter built without a configuration record it is the
  production sink.  A failure of the sink reaches the caller as the sink produced it: a
  rejection with an error is a rejection with the same error, and a synchronous throw is
  a synchronous throw of the same error.
\<close>

theorem saveImage_delegates_to_sink:
  "saveImage this img path = sink_store (dataSink this) img path
   \<and> (config_dataSink c = Some sink \<longrightarrow>
        saveImage (new_VisionAdapter env (Some c)) img path w = sink_store sink img path w)
   \<and> (config_dataSink c = Some sink
        \<and> sink_store sink img path w = (Returned (Rejected e), w') \<longrightarrow>
        saveImage (new_VisionAdapter env (Some c)) img path w = (Returned (Rejected e), w'))
   \<and> (config_dataSink c = Some sink
        \<and> sink_store sink img path w = (Thrown e, w') \<longrightarrow>
        saveImage (new_VisionAdapter env (Some c)) img path w = (Thrown e, w'))
   \<and> saveImage (new_VisionAdapter env None) img path w
        = sink_store (new_ImageWriter env) img path w"
  by (simp add: saveImage_def new_VisionAdapter_def)

text \<open>
  A substituted sink that writes to a disk and refuses the empty path, and one that
  throws.
\<close>

theorem saveImage_delegates_to_sink_witness:
  "saveImage
     (new_VisionAdapter stub_vision
        (Some (empty_vision_config\<lparr> config_dataSink := Some disk_sink \<rparr>)))
     screenshot ''shot.png'' []
   = (Returned (Resolved ()), [(''shot.png'', screenshot)])
   \<and> saveImage
     (new_VisionAdapter stub_vision
        (Some (empty_vision_config\<lparr> config_dataSink := Some disk_sink \<rparr>)))
     screenshot [] []
   = (Returned (Rejected (SinkWriteFailure ''ENOENT'')), [])
   \<and> saveImage
     (new_VisionAdapter stub_vision
        (Some (empty_vision_config\<lparr> config_dataSink :=
           Some (throwing_sink (JsError ''sink closed'')) \<rparr>)))
     screenshot ''shot.png'' (0::nat)
   = (Thrown (JsError ''sink closed''), 0)"
proof -
  let ?c = "empty_vision_config\<lparr> config_dataSink := Some disk_sink \<rparr>"
  let ?t = "empty_vision_config\<lparr> config_dataSink :=
      Some (throwing_sink (JsError ''sink closed'')) \<rparr>"
  have set: "config_dataSink ?c = Some disk_sink"
    by simp
  have set_throwing: "config_dataSink ?t = Some (throwing_sink (JsError ''sink closed''))"
    by simp
  have ok: "sink_store disk_sink screenshot ''shot.png'' []
      = (Returned (Resolved ()), [(''shot.png'', screenshot)])"
    by (simp add: disk_sink_def)
  have failed: "sink_store disk_sink screenshot [] []
      = (Returned (Rejected (SinkWriteFailure ''ENOENT'')), [])"
    by (simp add: disk_sink_def)
  have thrown: "sink_store (throwing_sink (JsError ''sink closed'')) screenshot ''shot.png''
      (0::nat) = (Thrown (JsError ''sink closed''), 0)"
    by (simp add: throwing_sink_def)
  from saveImage_delegates_to_sink
      [of "new_VisionAdapter stub_vision None" screenshot "''shot.png''" ?c disk_sink
         stub_vision "[]"] set
  have stored: "saveImage (new_VisionAdapter stub_vision (Some ?c)) screenshot ''shot.png'' []
      = sink_store disk_sink screenshot ''shot.png'' []"
    by blast
  from saveImage_delegates_to_sink
      [of "new_VisionAdapter stub_vision None" screenshot "[]" ?c disk_sink
         stub_vision "[]" "SinkWriteFailure ''ENOENT''" "[]"] set failed
  have refused: "saveImage (new_VisionAdapter stub_vision (Some ?c)) screenshot [] []
      = (Returned (Rejected (SinkWriteFailure ''ENOENT'')), [])"
    by blast
  from saveImage_delegates_to_sink
      [of "new_VisionAdapter stub_vision None" screenshot "''shot.png''" ?t
         "throwing_sink (JsError ''sink closed'')" stub_vision "0::nat"
         "JsError ''sink closed''" 0] set_throwing thrown
  have threw: "saveImage (new_VisionAdapter stub_vision (Some ?t)) screenshot ''shot.png''
      (0::nat) = (Thrown (JsError ''sink closed''), 0)"
    by blast
  from stored refused threw show ?thesis
    by (simp only: ok)
qed

text \<open>
  The claim as it is stated, that on an I/O error the call fails with
  \<open>SinkWriteFailure\<close> for any substituted sink, fails: the adapter does not translate
  errors.  A sink that rejects with another error makes \<open>saveImage\<close> reject with that
  error, and a sink that throws makes \<open>saveImage\<close> throw synchronously.
\<close>

theorem saveImage_delegates_to_sink_counterexample:
  "saveImage
     (new_VisionAdapter stub_vision
        (Some (empty_vision_config\<lparr> config_dataSink :=
           Some (stub_sink (Rejected (JsError ''EACCES''))) \<rparr>)))
     screenshot ''shot.png'' (0::nat)
   = (Returned (Rejected (JsError ''EACCES'')), 0)
   \<and> saveImage
     (new_VisionAdapter stub_vision
        (Some (empty_vision_config\<lparr> config_dataSink :=
           Some (stub_sink (Rejected (JsError ''EACCES''))) \<rparr>)))
     screenshot ''shot.png'' (0::nat)
   \<noteq> (Returned (Rejected (SinkWriteFailure ''EACCES'')), 0)
   \<and> saveImage
     (new_VisionAdapter stub_vision
        (Some (empty_vision_config\<lparr> config_dataSink :=
           Some (throwing_sink (JsError ''EACCES'')) \<rparr>)))
     screenshot ''shot.png'' (0::nat)
   = (Thrown (JsError ''EACCES''), 0)"
  by (simp add: saveImage_def new_VisionAdapter_def stub_sink_def throwing_sink_def)

subsection \<open>C9: the screen operations\<close>

text \<open>
  Claim C9.  For every adapter, region and world, \<open>grabScreen\<close>, \<open>grabScreenRegion\<close>,
  \<open>screenWidth\<close>, \<open>screenHeight\<close> and \<open>screenSize\<close> give exactly the result and the
  effect of the operation of the same name of the adapter's screen provider, called with
  the same arguments.
\<close>

theorem screen_operations_delegate:
  "grabScreen this w = screen_grabScreen (screen this) w
   \<and> grabScreenRegion this r w = screen_grabScreenRegion (screen this) r w
   \<and> screenWidth this w = screen_screenWidth (screen this) w
   \<and> screenHeight this w = screen_screenHeight (screen this) w
   \<and> screenSize this w = screen_screenSize (screen this) w"
  by (simp add: grabScreen_def grabScreenRegion_def screenWidth_def screenHeight_def
      screenSize_def)

subsection \<open>C10: the collaborators never change\<close>

text \<open>
  Claim C10.  A call of any public method of the vision adapter or of the native
  adapter, and so any sequence of such calls, leaves the adapter object as it was: the
  fields \<open>finder\<close>, \<open>screen\<close>, \<open>screenReader\<close> and \<open>dataSink\<close>, respectively
  \<open>clipboard\<close>, \<open>keyboard\<close> and \<open>mouse\<close>, hold after the calls what the constructor
  assigned.  Each field holds a collaborator object by its type, so none is ever null.
\<close>

theorem adapters_keep_their_collaborators:
  "fst (snd (vision_call op this w)) = this
   \<and> fst (snd (vision_calls ops this w)) = this
   \<and> fst (snd (vision_calls ops (new_VisionAdapter env config) w))
       = new_VisionAdapter env config
   \<and> fst (snd (native_call nop nthis nw)) = nthis
   \<and> fst (snd (native_calls nops nthis nw)) = nthis
   \<and> fst (snd (native_calls nops (new_NativeAdapter nenv nconfig) nw))
       = new_NativeAdapter nenv nconfig"
  by (simp add: vision_call_this vision_calls_this native_call_this native_calls_this)

end
